theory Spec2Isabelle
  imports Main "HOL-Library.Sublist"
begin

section \<open>Python strings\<close>

text \<open>
  A Python \<open>str\<close> is a sequence of Unicode code points; \<open>len\<close> counts code points and
  \<open>in\<close> tests for a contiguous run of them.  Texts, paths and messages are therefore lists
  of code points.  Status, task-type, method and task-id values are ASCII identifiers that
  the program only stores and compares for equality; they are kept as HOL strings.
\<close>

type_synonym ustring = "nat list"

text \<open>\<open>pat in s\<close> on Python strings.\<close>

fun contains :: "ustring \<Rightarrow> ustring \<Rightarrow> bool" where
  "contains [] pat = (pat = [])"
| "contains (c # cs) pat = (prefix pat (c # cs) \<or> contains cs pat)"

text \<open>The code points for which \<open>str.isspace\<close> holds; \<open>str.strip()\<close> removes them at both ends.\<close>

definition isspace :: "nat \<Rightarrow> bool" where
  "isspace c = (c \<in> set [9, 10, 11, 12, 13, 28, 29, 30, 31, 32, 133, 160, 5760,
      8192, 8193, 8194, 8195, 8196, 8197, 8198, 8199, 8200, 8201, 8202,
      8232, 8233, 8239, 8287, 12288])"

definition strip :: "ustring \<Rightarrow> ustring" where
  "strip s = rev (dropWhile isspace (rev (dropWhile isspace s)))"

text \<open>Decimal rendering of a number inside an f-string.\<close>

fun str_nat :: "nat \<Rightarrow> ustring" where
  "str_nat n = (if n < 10 then [48 + n] else str_nat (n div 10) @ [48 + n mod 10])"

declare str_nat.simps [simp del]

definition str_int :: "int \<Rightarrow> ustring" where
  "str_int i = (if i < 0 then 45 # str_nat (nat (- i)) else str_nat (nat i))"

text \<open>An optional value inside an f-string: \<open>None\<close> is rendered as the word None.\<close>

definition str_opt :: "ustring option \<Rightarrow> ustring" where
  "str_opt v = (case v of None \<Rightarrow> [78, 111, 110, 101] | Some s \<Rightarrow> s)"

section \<open>Exceptions\<close>

text \<open>
  The exceptions that reach the worker's handler: the selector's \<open>FileNotFoundError\<close>, the
  worker's own \<open>Exception\<close> for a missing document, and the errors of the database
  driver: \<open>IntegrityError\<close> when the unique index on \<open>task_id\<close> rejects an insert,
  \<open>DataError\<close> when a value does not fit its column, \<open>ValueError\<close> when a string holds
  the character U+0000.  \<open>ImportError\<close> and \<open>OperationalError\<close> stand for what the
  environment may raise besides (a module that cannot be loaded, a statement the server
  aborts).  Each carries its message, which is what \<open>str(e)\<close> returns.
\<close>

datatype exc =
    FileNotFoundError ustring
  | Exception ustring
  | IntegrityError ustring
  | DataError ustring
  | ValueError ustring
  | ImportError ustring
  | OperationalError ustring

fun str_exc :: "exc \<Rightarrow> ustring" where
  "str_exc (FileNotFoundError m) = m"
| "str_exc (Exception m) = m"
| "str_exc (IntegrityError m) = m"
| "str_exc (DataError m) = m"
| "str_exc (ValueError m) = m"
| "str_exc (ImportError m) = m"
| "str_exc (OperationalError m) = m"

section \<open>The environment of the program\<close>

text \<open>\<open>self.request\<close>: the task id of the message and the number of retries before it.\<close>

record request =
  req_id :: string
  retries :: nat

text \<open>
  The steps of a run at which the environment can make the program fail: the commit of the
  inserted task row (line 48), the refresh of that row (line 49), the query for the
  document (line 52), the commit of the status \<open>processing\<close> (line 60), the import of
  the PDF service (line 63), the read of \<open>document.file_path\<close> (line 66, a reload of the
  row when the session expires its objects at a commit), the commit of the result
  (line 86), and, inside the handler, the write to the document (lines 103-107) and the
  write to the task row (lines 110-115).
\<close>

datatype step =
    Insert_task
  | Refresh_task
  | Find_document
  | Mark_processing
  | Import_service
  | Load_document
  | Store_result
  | Fail_document
  | Fail_task

text \<open>
  What the program reads from outside itself.  \<open>path_exists\<close> is \<open>os.path.exists\<close>.
  \<open>fitz_pages\<close> is PyMuPDF on a path: the text of each page, or \<open>None\<close> when opening the
  file or reading a page raises.  \<open>plumber_pages\<close> is pdfplumber likewise, where
  \<open>extract_text()\<close> of a page may itself return \<open>None\<close>.  \<open>unique_violation\<close>,
  \<open>out_of_range\<close> and \<open>nul_rejected\<close> are the messages of the driver's errors for a
  duplicate task id, for a value that does not fit its column, and for a string with the
  character U+0000; a message carries the parameters of the statement, so it depends on
  the run (the request with its retry count, and the document id).  \<open>fault\<close> is the error,
  if any, with which the environment makes a step of a run fail.
\<close>

record env =
  path_exists :: "ustring \<Rightarrow> bool"
  fitz_pages :: "ustring \<Rightarrow> ustring list option"
  plumber_pages :: "ustring \<Rightarrow> ustring option list option"
  unique_violation :: "request \<Rightarrow> int \<Rightarrow> ustring"
  out_of_range :: "request \<Rightarrow> int \<Rightarrow> ustring"
  nul_rejected :: "request \<Rightarrow> int \<Rightarrow> ustring"
  fault :: "request \<Rightarrow> int \<Rightarrow> step \<Rightarrow> exc option"

section \<open>PDFService\<close>

text \<open>The entries that the two extractors write to the module's logger, one per call.\<close>

datatype log_event =
    PyMuPDF_done nat nat
  | PyMuPDF_failed
  | Pdfplumber_done nat nat
  | Pdfplumber_failed

text \<open>The separator written before the text of page \<open>n\<close>: a newline, three dashes, the
  page number between the characters U+7B2C and U+9875, three dashes, a newline.\<close>

definition page_header :: "nat \<Rightarrow> ustring" where
  "page_header n = [10, 45, 45, 45, 32, 31532, 32] @ str_nat n @ [32, 39029, 32, 45, 45, 45, 10]"

text \<open>The loop of \<open>_extract_with_pymupdf\<close>: \<open>page_num\<close> counts from 0, \<open>text\<close> accumulates.\<close>

fun pymupdf_loop :: "nat \<Rightarrow> ustring list \<Rightarrow> ustring \<Rightarrow> ustring" where
  "pymupdf_loop page_num [] text = text"
| "pymupdf_loop page_num (page_text # rest) text =
     pymupdf_loop (page_num + 1) rest (text @ page_header (page_num + 1) @ page_text)"

definition extract_with_pymupdf :: "env \<Rightarrow> ustring \<Rightarrow> (ustring \<times> nat) \<times> log_event list" where
  "extract_with_pymupdf e file_path =
     (case fitz_pages e file_path of
        None \<Rightarrow> (([], 0), [PyMuPDF_failed])
      | Some pages \<Rightarrow>
          (let page_count = length pages;
               text = pymupdf_loop 0 pages []
           in ((text, page_count), [PyMuPDF_done (length text) page_count])))"

text \<open>The loop of \<open>_extract_with_pdfplumber\<close>; a page without text contributes the empty string.\<close>

fun pdfplumber_loop :: "nat \<Rightarrow> ustring option list \<Rightarrow> ustring \<Rightarrow> ustring" where
  "pdfplumber_loop page_num [] text = text"
| "pdfplumber_loop page_num (extracted # rest) text =
     (let page_text = (case extracted of None \<Rightarrow> [] | Some t \<Rightarrow> t)
      in pdfplumber_loop (page_num + 1) rest (text @ page_header (page_num + 1) @ page_text))"

definition extract_with_pdfplumber :: "env \<Rightarrow> ustring \<Rightarrow> (ustring \<times> nat) \<times> log_event list" where
  "extract_with_pdfplumber e file_path =
     (case plumber_pages e file_path of
        None \<Rightarrow> (([], 0), [Pdfplumber_failed])
      | Some pages \<Rightarrow>
          (let page_count = length pages;
               text = pdfplumber_loop 0 pages []
           in ((text, page_count), [Pdfplumber_done (length text) page_count])))"

text \<open>The result dictionary of the selector.\<close>

record extraction_result =
  res_text :: ustring
  res_text_length :: nat
  res_page_count :: nat
  res_method :: string

text \<open>The message of the selector's error: the prefix ends in the five characters of the
  first permanent-failure pattern, a colon and a space; the path follows.\<close>

definition file_missing_message :: "ustring \<Rightarrow> ustring" where
  "file_missing_message file_path =
     [80, 68, 70, 25991, 20214, 19981, 23384, 22312, 58, 32] @ file_path"

text \<open>\<open>PDFService.extract_text_from_pdf\<close>: the outcome, and the log the extractors leave.\<close>

definition extract_text_from_pdf :: "env \<Rightarrow> ustring \<Rightarrow> (exc + extraction_result) \<times> log_event list" where
  "extract_text_from_pdf e file_path =
     (if \<not> path_exists e file_path then (Inl (FileNotFoundError (file_missing_message file_path)), [])
      else
        (let ((text_pymupdf, page_count_pymupdf), log1) = extract_with_pymupdf e file_path
         in if length (strip text_pymupdf) > 100
            then (Inr \<lparr>res_text = text_pymupdf, res_text_length = length text_pymupdf,
                       res_page_count = page_count_pymupdf, res_method = ''pymupdf''\<rparr>, log1)
            else
              (let ((text_pdfplumber, page_count_pdfplumber), log2) = extract_with_pdfplumber e file_path
               in if length text_pdfplumber > length text_pymupdf
                  then (Inr \<lparr>res_text = text_pdfplumber, res_text_length = length text_pdfplumber,
                             res_page_count = page_count_pdfplumber, res_method = ''pdfplumber''\<rparr>,
                        log1 @ log2)
                  else (Inr \<lparr>res_text = text_pymupdf, res_text_length = length text_pymupdf,
                             res_page_count = page_count_pymupdf, res_method = ''pymupdf''\<rparr>,
                        log1 @ log2))))"

section \<open>The data model\<close>

text \<open>
  The columns of \<open>Document\<close> and \<open>ProcessingTask\<close> that the worker and the text endpoint
  read or write.  \<open>doc_id\<close> and \<open>task_pk\<close> are the primary keys (both are called \<open>id\<close> in
  the source).  Timestamps are left out: nothing below reads them.
\<close>

record document =
  doc_id :: int
  file_path :: ustring
  extracted_text :: "ustring option"
  text_length :: nat
  page_count :: nat
  extraction_status :: string
  extraction_error :: "ustring option"

text \<open>The JSON stored in \<open>ProcessingTask.result\<close>.\<close>

record task_result =
  tr_text_length :: nat
  tr_page_count :: nat
  tr_extraction_method :: string

record processing_task =
  task_pk :: nat
  task_id :: string
  task_type :: string
  status :: string
  document_id :: int
  result :: "task_result option"
  error_message :: "ustring option"

text \<open>The two tables, each in insertion order.\<close>

record db =
  documents :: "document list"
  processing_tasks :: "processing_task list"

text \<open>
  A database session: the committed tables, and the session's own view with the writes
  not yet committed.  \<open>commit\<close> makes the view durable, \<open>rollback\<close> discards it.
  \<open>rollback\<close> itself is taken to work.
\<close>

record session =
  committed :: db
  pending :: db

definition SessionLocal :: "db \<Rightarrow> session" where
  "SessionLocal d = \<lparr>committed = d, pending = d\<rparr>"

definition commit :: "session \<Rightarrow> session" where
  "commit s = s\<lparr>committed := pending s\<rparr>"

definition rollback :: "session \<Rightarrow> session" where
  "rollback s = s\<lparr>pending := committed s\<rparr>"

text \<open>\<open>query(...).filter(...).first()\<close> on each table.\<close>

definition query_document :: "int \<Rightarrow> session \<Rightarrow> document option" where
  "query_document i s = find (\<lambda>d. doc_id d = i) (documents (pending s))"

definition query_task :: "string \<Rightarrow> session \<Rightarrow> processing_task option" where
  "query_task tid s = find (\<lambda>t. task_id t = tid) (processing_tasks (pending s))"

text \<open>Assigning to the attributes of the object a query returned changes that one row.\<close>

fun update_first :: "('a \<Rightarrow> bool) \<Rightarrow> ('a \<Rightarrow> 'a) \<Rightarrow> 'a list \<Rightarrow> 'a list" where
  "update_first P f [] = []"
| "update_first P f (x # xs) = (if P x then f x # xs else x # update_first P f xs)"

definition set_document :: "int \<Rightarrow> (document \<Rightarrow> document) \<Rightarrow> session \<Rightarrow> session" where
  "set_document i f s =
     s\<lparr>pending := (pending s)\<lparr>documents := update_first (\<lambda>d. doc_id d = i) f (documents (pending s))\<rparr>\<rparr>"

definition set_task :: "(processing_task \<Rightarrow> bool) \<Rightarrow> (processing_task \<Rightarrow> processing_task) \<Rightarrow> session \<Rightarrow> session" where
  "set_task P f s =
     s\<lparr>pending := (pending s)\<lparr>processing_tasks := update_first P f (processing_tasks (pending s))\<rparr>\<rparr>"

text \<open>The next value of the serial primary key of \<open>processing_tasks\<close>.\<close>

definition next_pk :: "processing_task list \<Rightarrow> nat" where
  "next_pk ts = Suc (foldr max (map task_pk ts) 0)"

text \<open>
  What the database (PostgreSQL, through its driver) accepts.  A string with the character
  U+0000 is refused by the driver before it is sent.  \<open>document_id\<close>, \<open>text_length\<close> and
  \<open>page_count\<close> are \<open>INTEGER\<close> columns of 32 bits, \<open>task_id\<close> is a \<open>String(100)\<close>
  column.
\<close>

definition storable :: "ustring \<Rightarrow> bool" where
  "storable m = (0 \<notin> set m)"

definition storable_id :: "string \<Rightarrow> bool" where
  "storable_id tid = (CHR 0x00 \<notin> set tid)"

definition in_integer :: "int \<Rightarrow> bool" where
  "in_integer n = (- 2147483648 \<le> n \<and> n \<le> 2147483647)"

text \<open>\<open>db.add(task)\<close>: the new row is in the session's view, not yet committed.\<close>

definition db_add :: "processing_task \<Rightarrow> session \<Rightarrow> session" where
  "db_add t s = s\<lparr>pending := (pending s)\<lparr>processing_tasks := processing_tasks (pending s) @ [t]\<rparr>\<rparr>"

text \<open>
  The error, if any, with which the commit of line 48 ends for the row of a request: a
  failure of the environment, a task id with U+0000, a task id longer than 100 or a
  document id outside the integers of 32 bits, or a task id that a committed row already
  has (the unique index).
\<close>

definition insert_error :: "env \<Rightarrow> request \<Rightarrow> int \<Rightarrow> processing_task list \<Rightarrow> exc option" where
  "insert_error e req i ts =
     (case fault e req i Insert_task of
        Some err \<Rightarrow> Some err
      | None \<Rightarrow>
          if \<not> storable_id (req_id req) then Some (ValueError (nul_rejected e req i))
          else if 100 < length (req_id req) \<or> \<not> in_integer i then Some (DataError (out_of_range e req i))
          else if req_id req \<in> set (map task_id ts) then Some (IntegrityError (unique_violation e req i))
          else None)"

definition commit_insert :: "env \<Rightarrow> request \<Rightarrow> int \<Rightarrow> session \<Rightarrow> exc + session" where
  "commit_insert e req i s =
     (case insert_error e req i (processing_tasks (committed s)) of
        Some err \<Rightarrow> Inl err
      | None \<Rightarrow> Inr (commit s))"

text \<open>The same for the commit of line 86, which writes the text, its length and the page
  count of a result.\<close>

definition result_error :: "env \<Rightarrow> request \<Rightarrow> int \<Rightarrow> extraction_result \<Rightarrow> exc option" where
  "result_error e req i res =
     (case fault e req i Store_result of
        Some err \<Rightarrow> Some err
      | None \<Rightarrow>
          if \<not> storable (res_text res) then Some (ValueError (nul_rejected e req i))
          else if 2147483647 < res_text_length res \<or> 2147483647 < res_page_count res
          then Some (DataError (out_of_range e req i))
          else None)"

definition commit_result :: "env \<Rightarrow> request \<Rightarrow> int \<Rightarrow> extraction_result \<Rightarrow> session \<Rightarrow> exc + session" where
  "commit_result e req i res s =
     (case result_error e req i res of
        Some err \<Rightarrow> Inl err
      | None \<Rightarrow> Inr (commit s))"

section \<open>The worker task\<close>

record task_return =
  ret_document_id :: int
  ret_text_length :: nat
  ret_page_count :: nat
  ret_status :: string

text \<open>How one run of the task ends: it returns, it raises the retry signal with a
  countdown in seconds, or it raises the error itself.\<close>

datatype outcome = Returned task_return | Retry exc nat | Raised exc

text \<open>The message for a document id without a row: the characters U+6587 U+6863, a space,
  the id, a space, and the characters U+4E0D U+5B58 U+5728.\<close>

definition missing_document_message :: "int \<Rightarrow> ustring" where
  "missing_document_message i = [25991, 26723, 32] @ str_int i @ [32, 19981, 23384, 22312]"

text \<open>The body of the \<open>try\<close> block.  It ends with the session as it is at that point and
  either the error raised or the value returned.\<close>

definition try_body :: "env \<Rightarrow> request \<Rightarrow> int \<Rightarrow> session \<Rightarrow> session \<times> (exc + task_return)" where
  "try_body e req i s0 =
     (let task = \<lparr>task_pk = next_pk (processing_tasks (pending s0)), task_id = req_id req,
                  task_type = ''pdf_extraction'', status = ''processing'', document_id = i,
                  result = None, error_message = None\<rparr>;
          s1 = db_add task s0
      in case commit_insert e req i s1 of
           Inl err \<Rightarrow> (s1, Inl err)
         | Inr s2 \<Rightarrow>
       (case fault e req i Refresh_task of
          Some err \<Rightarrow> (s2, Inl err)
        | None \<Rightarrow>
       (case fault e req i Find_document of
          Some err \<Rightarrow> (s2, Inl err)
        | None \<Rightarrow>
       (case query_document i s2 of
          None \<Rightarrow> (s2, Inl (Exception (missing_document_message i)))
        | Some document \<Rightarrow>
       (let s3 = set_document i (\<lambda>d. d\<lparr>extraction_status := ''processing''\<rparr>) s2
        in case fault e req i Mark_processing of
             Some err \<Rightarrow> (s3, Inl err)
           | None \<Rightarrow>
       (let s4 = commit s3
        in case fault e req i Import_service of
             Some err \<Rightarrow> (s4, Inl err)
           | None \<Rightarrow>
       (case fault e req i Load_document of
          Some err \<Rightarrow> (s4, Inl err)
        | None \<Rightarrow>
       (case fst (extract_text_from_pdf e (file_path document)) of
          Inl err \<Rightarrow> (s4, Inl err)
        | Inr res \<Rightarrow>
       (let s5 = set_document i
                   (\<lambda>d. d\<lparr>extracted_text := Some (res_text res),
                          text_length := res_text_length res,
                          page_count := res_page_count res,
                          extraction_status := ''completed''\<rparr>) s4;
            s6 = set_task (\<lambda>t. task_pk t = task_pk task)
                   (\<lambda>t. t\<lparr>status := ''success'',
                          result := Some \<lparr>tr_text_length = res_text_length res,
                                          tr_page_count = res_page_count res,
                                          tr_extraction_method = res_method res\<rparr>\<rparr>) s5
        in case commit_result e req i res s6 of
             Inl err \<Rightarrow> (s6, Inl err)
           | Inr s7 \<Rightarrow>
               (s7, Inr \<lparr>ret_document_id = i,
                         ret_text_length = res_text_length res,
                         ret_page_count = res_page_count res,
                         ret_status = ''success''\<rparr>))))))))))"

text \<open>The two patterns that mark an error as not to be retried: U+6587 U+4EF6 U+4E0D U+5B58
  U+5728 and U+65E0 U+6CD5 U+8BFB U+53D6.\<close>

definition is_file_error :: "ustring \<Rightarrow> bool" where
  "is_file_error m = (contains m [25991, 20214, 19981, 23384, 22312] \<or> contains m [26080, 27861, 35835, 21462])"

text \<open>
  The two writes of the \<open>except\<close> block, inside its own \<open>try\<close>.  The first marks the
  document, when it has a row; if that write raises, the error is logged and the second
  write is skipped (\<open>Inl\<close>).  The second marks the task row with the request's id; an
  error there is logged as well.  A write raises when the environment fails it or when the
  message to store holds U+0000; the query for the task row raises when the task id does.
\<close>

definition fail_document :: "env \<Rightarrow> request \<Rightarrow> int \<Rightarrow> exc \<Rightarrow> session \<Rightarrow> session + session" where
  "fail_document e req i err s =
     (case fault e req i Fail_document of
        Some update_error \<Rightarrow> Inl s
      | None \<Rightarrow>
          (case query_document i s of
             None \<Rightarrow> Inr s
           | Some document \<Rightarrow>
               (let s' = set_document i (\<lambda>d. d\<lparr>extraction_status := ''failed'',
                                                  extraction_error := Some (str_exc err)\<rparr>) s
                in if storable (str_exc err) then Inr (commit s') else Inl s')))"

definition fail_task :: "env \<Rightarrow> request \<Rightarrow> int \<Rightarrow> exc \<Rightarrow> session \<Rightarrow> session" where
  "fail_task e req i err s =
     (case fault e req i Fail_task of
        Some update_error \<Rightarrow> s
      | None \<Rightarrow>
          if \<not> storable_id (req_id req) then s
          else
            (case query_task (req_id req) s of
               None \<Rightarrow> s
             | Some task \<Rightarrow>
                 (let s' = set_task (\<lambda>t. task_id t = req_id req)
                                    (\<lambda>t. t\<lparr>status := ''failure'',
                                           error_message := Some (str_exc err)\<rparr>) s
                  in if storable (str_exc err) then commit s' else s')))"

text \<open>The \<open>except\<close> block: roll back, record the failure on the document and on the task
  row with the request's id, then decide between raising and retrying.\<close>

definition except_handler :: "env \<Rightarrow> request \<Rightarrow> int \<Rightarrow> exc \<Rightarrow> session \<Rightarrow> session \<times> outcome" where
  "except_handler e req i err s0 =
     (let s1 = rollback s0;
          s3 = (case fail_document e req i err s1 of
                  Inl s2 \<Rightarrow> s2
                | Inr s2 \<Rightarrow> fail_task e req i err s2)
      in if is_file_error (str_exc err) then (s3, Raised err)
         else (let retry_count = retries req
               in if retry_count < 3
                  then (let wait_time = 60 * (retry_count + 1) in (s3, Retry err wait_time))
                  else (s3, Raised err)))"

text \<open>\<open>extract_pdf_text_task\<close>: one run of the task on the committed database.  The
  \<open>finally\<close> block closes the session, so what remains is what was committed.\<close>

definition extract_pdf_text_task :: "env \<Rightarrow> request \<Rightarrow> int \<Rightarrow> db \<Rightarrow> db \<times> outcome" where
  "extract_pdf_text_task e req i d =
     (case try_body e req i (SessionLocal d) of
        (s, Inr ret) \<Rightarrow> (committed s, Returned ret)
      | (s, Inl err) \<Rightarrow> (let (s', out) = except_handler e req i err s in (committed s', out)))"

section \<open>Redelivery by the task queue\<close>

text \<open>
  The retry signal is handled by the queue library, not by this program: \<open>Task.retry\<close>
  sends the task again as a new message with the same task id and arguments and with
  \<open>retries\<close> increased by one, to be run after the countdown.  The worker asks for a
  retry only below 3 retries, so the library's own bound \<open>max_retries=3\<close> is never
  exceeded.  \<open>run_task\<close> follows one message through all its runs and collects how each
  run ended; the countdown is recorded, time itself is not part of the model.
\<close>

function run_task :: "env \<Rightarrow> request \<Rightarrow> int \<Rightarrow> db \<Rightarrow> db \<times> outcome list" where
  "run_task e req i d =
     (case extract_pdf_text_task e req i d of
        (d', Retry err countdown) \<Rightarrow>
          (let (d'', outs) = run_task e (req\<lparr>retries := retries req + 1\<rparr>) i d'
           in (d'', Retry err countdown # outs))
      | (d', Returned ret) \<Rightarrow> (d', [Returned ret])
      | (d', Raised err) \<Rightarrow> (d', [Raised err]))"
  by pat_completeness auto
termination
proof (relation "measure (\<lambda>(e, req, i, d). 3 - retries req)")
  show "wf (measure (\<lambda>(e, req, i, d). 3 - retries req))"
    by simp
next
  fix e :: env and req :: request and i :: int and d d' :: db and out err countdown
  assume run: "(d', out) = extract_pdf_text_task e req i d" and out: "out = Retry err countdown"
  have "retries req < 3"
  proof (rule ccontr)
    assume "\<not> retries req < 3"
    then have "\<And>x s s'. except_handler e req i x s \<noteq> (s', Retry err countdown)"
      by (simp add: except_handler_def Let_def)
    then have "extract_pdf_text_task e req i d \<noteq> (d', Retry err countdown)"
      by (auto simp: extract_pdf_text_task_def split: prod.splits sum.splits)
    with run out show False
      by simp
  qed
  then show "((e, req\<lparr>retries := retries req + 1\<rparr>, i, d'), (e, req, i, d))
              \<in> measure (\<lambda>(e, req, i, d). 3 - retries req)"
    by simp
qed

declare run_task.simps [simp del]

text \<open>The same runs, each with its request, the database it left and how it ended.\<close>

function run_trace :: "env \<Rightarrow> request \<Rightarrow> int \<Rightarrow> db \<Rightarrow> (request \<times> db \<times> outcome) list" where
  "run_trace e req i d =
     (case extract_pdf_text_task e req i d of
        (d', Retry err countdown) \<Rightarrow>
          (req, d', Retry err countdown) # run_trace e (req\<lparr>retries := retries req + 1\<rparr>) i d'
      | (d', Returned ret) \<Rightarrow> [(req, d', Returned ret)]
      | (d', Raised err) \<Rightarrow> [(req, d', Raised err)])"
  by pat_completeness auto
termination
proof (relation "measure (\<lambda>(e, req, i, d). 3 - retries req)")
  show "wf (measure (\<lambda>(e, req, i, d). 3 - retries req))"
    by simp
next
  fix e :: env and req :: request and i :: int and d d' :: db and out err countdown
  assume run: "(d', out) = extract_pdf_text_task e req i d" and out: "out = Retry err countdown"
  have "retries req < 3"
  proof (rule ccontr)
    assume "\<not> retries req < 3"
    then have "\<And>x s s'. except_handler e req i x s \<noteq> (s', Retry err countdown)"
      by (simp add: except_handler_def Let_def)
    then have "extract_pdf_text_task e req i d \<noteq> (d', Retry err countdown)"
      by (auto simp: extract_pdf_text_task_def split: prod.splits sum.splits)
    with run out show False
      by simp
  qed
  then show "((e, req\<lparr>retries := retries req + 1\<rparr>, i, d'), (e, req, i, d))
              \<in> measure (\<lambda>(e, req, i, d). 3 - retries req)"
    by simp
qed

declare run_trace.simps [simp del]

text \<open>The countdowns of the retry signals among the outcomes of a message's runs.\<close>

fun countdowns :: "outcome list \<Rightarrow> nat list" where
  "countdowns [] = []"
| "countdowns (Retry err c # outs) = c # countdowns outs"
| "countdowns (out # outs) = countdowns outs"

section \<open>Reading a document\<close>

text \<open>The most recent task row of a document, as the status endpoint selects it
  (newest first, first row).\<close>

definition latest_task :: "int \<Rightarrow> db \<Rightarrow> processing_task option" where
  "latest_task i d =
     (case filter (\<lambda>t. document_id t = i) (processing_tasks d) of
        [] \<Rightarrow> None
      | t # ts \<Rightarrow> Some (last (t # ts)))"

datatype http_exception = HTTPException nat ustring

record text_response =
  resp_document_id :: int
  resp_text :: "ustring option"
  resp_text_length :: nat
  resp_page_count :: nat

text \<open>The prefix of the detail for a failed extraction: six characters, a colon, a space.\<close>

definition extraction_failed_detail :: "ustring option \<Rightarrow> ustring" where
  "extraction_failed_detail err = [25991, 26412, 25552, 21462, 22833, 36133, 58, 32] @ str_opt err"

text \<open>\<open>get_document_text\<close>, the endpoint that returns the extracted text.\<close>

definition get_document_text :: "int \<Rightarrow> db \<Rightarrow> http_exception + text_response" where
  "get_document_text i d =
     (case find (\<lambda>x. doc_id x = i) (documents d) of
        None \<Rightarrow> Inl (HTTPException 404 [25991, 26723, 19981, 23384, 22312])
      | Some document \<Rightarrow>
          (if extraction_status document = ''pending''
           then Inl (HTTPException 425
                  [25991, 26412, 25552, 21462, 20013, 65292, 35831, 31245, 21518, 37325, 35797])
           else if extraction_status document = ''processing''
           then Inl (HTTPException 425 [25991, 26412, 25552, 21462, 22788, 29702, 20013])
           else if extraction_status document = ''failed''
           then Inl (HTTPException 500 (extraction_failed_detail (extraction_error document)))
           else if extraction_status document = ''completed''
           then Inr \<lparr>resp_document_id = i, resp_text = extracted_text document,
                     resp_text_length = text_length document,
                     resp_page_count = page_count document\<rparr>
           else Inl (HTTPException 500 [26410, 30693, 29366, 24577])))"

section \<open>Auxiliary notions for the statements\<close>

text \<open>Whether the log shows a call of the secondary extractor.\<close>

fun is_pdfplumber_event :: "log_event \<Rightarrow> bool" where
  "is_pdfplumber_event (Pdfplumber_done n k) = True"
| "is_pdfplumber_event Pdfplumber_failed = True"
| "is_pdfplumber_event ev = False"

definition pdfplumber_ran :: "log_event list \<Rightarrow> bool" where
  "pdfplumber_ran log = list_ex is_pdfplumber_event log"

text \<open>The row that a run of the worker inserts first, and the tables once it is committed.\<close>

definition new_task :: "request \<Rightarrow> int \<Rightarrow> db \<Rightarrow> processing_task" where
  "new_task req i d =
     \<lparr>task_pk = next_pk (processing_tasks d), task_id = req_id req,
      task_type = ''pdf_extraction'', status = ''processing'', document_id = i,
      result = None, error_message = None\<rparr>"

definition started :: "request \<Rightarrow> int \<Rightarrow> db \<Rightarrow> db" where
  "started req i d = d\<lparr>processing_tasks := processing_tasks d @ [new_task req i d]\<rparr>"

text \<open>The tables once the status \<open>processing\<close> of the document is committed as well.\<close>

definition in_progress :: "request \<Rightarrow> int \<Rightarrow> db \<Rightarrow> db" where
  "in_progress req i d =
     d\<lparr>documents := update_first (\<lambda>x. doc_id x = i) (\<lambda>x. x\<lparr>extraction_status := ''processing''\<rparr>) (documents d),
       processing_tasks := processing_tasks d @ [new_task req i d]\<rparr>"

text \<open>What the \<open>except\<close> block writes to a document and to a task row.\<close>

definition failed_document :: "exc \<Rightarrow> document \<Rightarrow> document" where
  "failed_document err x = x\<lparr>extraction_status := ''failed'', extraction_error := Some (str_exc err)\<rparr>"

definition failed_task :: "exc \<Rightarrow> processing_task \<Rightarrow> processing_task" where
  "failed_task err t = t\<lparr>status := ''failure'', error_message := Some (str_exc err)\<rparr>"

text \<open>
  Whether the handler's write to the document goes through, and whether its write to the
  task row does.  The second is not attempted when the first has raised.
\<close>

definition document_write :: "env \<Rightarrow> request \<Rightarrow> int \<Rightarrow> exc \<Rightarrow> bool" where
  "document_write e req i err = (fault e req i Fail_document = None \<and> storable (str_exc err))"

definition task_write :: "env \<Rightarrow> request \<Rightarrow> int \<Rightarrow> exc \<Rightarrow> bool" where
  "task_write e req i err =
     (document_write e req i err \<and> fault e req i Fail_task = None \<and> storable_id (req_id req))"

text \<open>The database after the \<open>except\<close> block has run on an error, and the decision the
  block takes then.\<close>

definition record_failure :: "env \<Rightarrow> request \<Rightarrow> int \<Rightarrow> exc \<Rightarrow> db \<Rightarrow> db" where
  "record_failure e req i err d =
     d\<lparr>documents :=
         (if document_write e req i err
          then update_first (\<lambda>x. doc_id x = i) (failed_document err) (documents d)
          else documents d),
       processing_tasks :=
         (if task_write e req i err
          then update_first (\<lambda>t. task_id t = req_id req) (failed_task err) (processing_tasks d)
          else processing_tasks d)\<rparr>"

definition decide :: "request \<Rightarrow> exc \<Rightarrow> outcome" where
  "decide req err =
     (if is_file_error (str_exc err) then Raised err
      else if retries req < 3 then Retry err (60 * (retries req + 1))
      else Raised err)"

text \<open>What the successful end of the \<open>try\<close> block writes to the document and to its task row.\<close>

definition completed_document :: "extraction_result \<Rightarrow> document \<Rightarrow> document" where
  "completed_document res x =
     x\<lparr>extracted_text := Some (res_text res), text_length := res_text_length res,
       page_count := res_page_count res, extraction_status := ''completed''\<rparr>"

definition succeeded_task :: "extraction_result \<Rightarrow> processing_task \<Rightarrow> processing_task" where
  "succeeded_task res t =
     t\<lparr>status := ''success'',
       result := Some \<lparr>tr_text_length = res_text_length res, tr_page_count = res_page_count res,
                       tr_extraction_method = res_method res\<rparr>\<rparr>"

text \<open>A run that ended in an error whose message holds neither of the two patterns.\<close>

fun transient_failure :: "outcome \<Rightarrow> bool" where
  "transient_failure (Returned ret) = False"
| "transient_failure (Retry err c) = (\<not> is_file_error (str_exc err))"
| "transient_failure (Raised err) = (\<not> is_file_error (str_exc err))"

text \<open>
  What a failed run of a message leaves of the document with id \<open>i\<close>, given the tables
  \<open>d\<close> the message started on: the document has a row after the run exactly when it had
  one before, and when the handler's write went through, the row is \<open>failed\<close> with the
  message of the run's error.
\<close>

definition document_marked :: "env \<Rightarrow> request \<Rightarrow> int \<Rightarrow> db \<Rightarrow> exc \<Rightarrow> db \<Rightarrow> bool" where
  "document_marked e rq i d err d' =
     (case find (\<lambda>x. doc_id x = i) (documents d') of
        None \<Rightarrow> find (\<lambda>x. doc_id x = i) (documents d) = None
      | Some x \<Rightarrow>
          find (\<lambda>x. doc_id x = i) (documents d) \<noteq> None
          \<and> (if document_write e rq i err
             then extraction_status x = ''failed'' \<and> extraction_error x = Some (str_exc err)
             else True))"

fun marks_document :: "env \<Rightarrow> int \<Rightarrow> db \<Rightarrow> request \<times> db \<times> outcome \<Rightarrow> bool" where
  "marks_document e i d (rq, d', Returned ret) = False"
| "marks_document e i d (rq, d', Retry err c) = document_marked e rq i d err d'"
| "marks_document e i d (rq, d', Raised err) = document_marked e rq i d err d'"

text \<open>The stored length of a completed document is the length of its stored text.\<close>

definition length_consistent :: "document \<Rightarrow> bool" where
  "length_consistent x =
     (if extraction_status x = ''completed''
      then (case extracted_text x of None \<Rightarrow> False | Some t \<Rightarrow> text_length x = length t)
      else True)"

text \<open>
  The error in which the first run of a message for a document id without a row ends: the
  error of the insert when the insert is refused, the error of the environment when the
  refresh of the row or the query for the document fails, and the worker's own exception
  otherwise.
\<close>

definition missing_document_error :: "env \<Rightarrow> request \<Rightarrow> int \<Rightarrow> db \<Rightarrow> exc" where
  "missing_document_error e req i d =
     (case insert_error e req i (processing_tasks d) of
        Some err \<Rightarrow> err
      | None \<Rightarrow>
          (case fault e req i Refresh_task of
             Some err \<Rightarrow> err
           | None \<Rightarrow>
               (case fault e req i Find_document of
                  Some err \<Rightarrow> err
                | None \<Rightarrow> Exception (missing_document_message i))))"

text \<open>
  The errors that the driver and the environment hold ready for the steps a run goes
  through before it has found its document, and whether, for the four runs of a message,
  none of their messages holds one of the two patterns.
\<close>

definition early_errors :: "env \<Rightarrow> request \<Rightarrow> int \<Rightarrow> exc list" where
  "early_errors e rq i =
     [ValueError (nul_rejected e rq i), DataError (out_of_range e rq i),
      IntegrityError (unique_violation e rq i)]
     @ concat (map (\<lambda>st. case fault e rq i st of None \<Rightarrow> [] | Some err \<Rightarrow> [err])
                [Insert_task, Refresh_task, Find_document])"

definition early_errors_transient :: "env \<Rightarrow> request \<Rightarrow> int \<Rightarrow> bool" where
  "early_errors_transient e req i =
     list_all (\<lambda>k. list_all (\<lambda>err. \<not> is_file_error (str_exc err)) (early_errors e (req\<lparr>retries := k\<rparr>) i))
       [0, 1, 2, 3]"

text \<open>
  A small environment and a few rows for concrete runs.  The environment has one readable
  path, a one-page file on which the secondary extractor finds one character more than the
  primary; no step fails in it, and the driver's three messages are the words duplicate,
  range and NUL.  Document 7 is on that path and pending.  For message t1 there are four
  versions of its row: as a run for a document id without a row leaves it, as a run
  interrupted after its insert leaves it, as a rejected insert leaves it, and as a run on a
  missing file leaves it.  Message t2 is a later, successful submission of document 7.
\<close>

definition sample_env :: env where
  "sample_env = \<lparr>path_exists = (\<lambda>p. p = [47, 97]), fitz_pages = (\<lambda>p. Some [[104, 105]]),
           plumber_pages = (\<lambda>p. Some [Some [104, 105, 33]]),
           unique_violation = (\<lambda>rq i. [100, 117, 112, 108, 105, 99, 97, 116, 101]),
           out_of_range = (\<lambda>rq i. [114, 97, 110, 103, 101]),
           nul_rejected = (\<lambda>rq i. [78, 85, 76]),
           fault = (\<lambda>rq i st. None)\<rparr>"

definition sample_document :: document where
  "sample_document = \<lparr>doc_id = 7, file_path = [47, 97], extracted_text = None, text_length = 0,
     page_count = 1, extraction_status = ''pending'', extraction_error = None\<rparr>"

definition sample_failed_task :: processing_task where
  "sample_failed_task = \<lparr>task_pk = 1, task_id = ''t1'', task_type = ''pdf_extraction'',
     status = ''failure'', document_id = 7, result = None,
     error_message = Some [25991, 26723, 32, 55, 32, 19981, 23384, 22312]\<rparr>"

definition sample_started_task :: processing_task where
  "sample_started_task = \<lparr>task_pk = 1, task_id = ''t1'', task_type = ''pdf_extraction'',
     status = ''processing'', document_id = 7, result = None, error_message = None\<rparr>"

definition sample_rejected_task :: processing_task where
  "sample_rejected_task = \<lparr>task_pk = 1, task_id = ''t1'', task_type = ''pdf_extraction'',
     status = ''failure'', document_id = 7, result = None,
     error_message = Some [100, 117, 112, 108, 105, 99, 97, 116, 101]\<rparr>"

definition sample_rejected_document :: document where
  "sample_rejected_document = sample_document
     \<lparr>extraction_status := ''failed'',
      extraction_error := Some [100, 117, 112, 108, 105, 99, 97, 116, 101]\<rparr>"

definition sample_file_failed_task :: processing_task where
  "sample_file_failed_task = \<lparr>task_pk = 1, task_id = ''t1'', task_type = ''pdf_extraction'',
     status = ''failure'', document_id = 7, result = None,
     error_message = Some [80, 68, 70, 25991, 20214, 19981, 23384, 22312, 58, 32, 47, 97]\<rparr>"

definition sample_succeeded_task :: processing_task where
  "sample_succeeded_task = \<lparr>task_pk = 2, task_id = ''t2'', task_type = ''pdf_extraction'',
     status = ''success'', document_id = 7,
     result = Some \<lparr>tr_text_length = 18, tr_page_count = 1, tr_extraction_method = ''pdfplumber''\<rparr>,
     error_message = None\<rparr>"

definition sample_completed_document :: document where
  "sample_completed_document = sample_document
     \<lparr>extracted_text := Some [10, 45, 45, 45, 32, 31532, 32, 49, 32, 39029, 32, 45, 45, 45, 10, 104, 105, 33],
      text_length := 18, page_count := 1, extraction_status := ''completed''\<rparr>"

text \<open>
  The same environment with a file whose secondary text holds the character U+0000, which
  the database refuses to store; and the rows a run on it leaves of document 7 and of
  messages t1 and t2.
\<close>

definition nul_env :: env where
  "nul_env = sample_env\<lparr>plumber_pages := (\<lambda>p. Some [Some [104, 0, 105]])\<rparr>"

definition sample_nul_document :: document where
  "sample_nul_document = sample_document
     \<lparr>extraction_status := ''failed'', extraction_error := Some [78, 85, 76]\<rparr>"

definition sample_nul_task :: processing_task where
  "sample_nul_task = \<lparr>task_pk = 1, task_id = ''t1'', task_type = ''pdf_extraction'',
     status = ''failure'', document_id = 7, result = None, error_message = Some [78, 85, 76]\<rparr>"

definition sample_nul_task2 :: processing_task where
  "sample_nul_task2 = \<lparr>task_pk = 2, task_id = ''t2'', task_type = ''pdf_extraction'',
     status = ''failure'', document_id = 7, result = None, error_message = Some [78, 85, 76]\<rparr>"

text \<open>
  The same environment with a one-page file whose primary text is 86 blanks: with the page
  header the primary text has 101 code points, of which 13 remain when it is stripped; the
  secondary text is the header and 87 letters.
\<close>

definition blank_env :: env where
  "blank_env = sample_env\<lparr>fitz_pages := (\<lambda>p. Some [replicate 86 32]),
                           plumber_pages := (\<lambda>p. Some [Some (replicate 87 120)])\<rparr>"

section \<open>Facts about strings and messages\<close>

lemma contains_sublist: "contains s pat = sublist pat s"
  by (induction s) (auto simp: sublist_Cons_right)

lemma contains_set: "contains s pat \<Longrightarrow> set pat \<subseteq> set s"
  by (simp add: contains_sublist set_mono_sublist)

lemma str_nat_digits: "c \<in> set (str_nat n) \<Longrightarrow> 48 \<le> c \<and> c \<le> 57"
proof (induction n rule: str_nat.induct)
  case (1 n)
  show ?case
  proof (cases "n < 10")
    case True
    with "1.prems" show ?thesis by (simp add: str_nat.simps [of n])
  next
    case False
    with "1.prems" have "c \<in> set (str_nat (n div 10)) \<or> c = 48 + n mod 10"
      by (auto simp add: str_nat.simps [of n])
    moreover have "n mod 10 < 10" by simp
    ultimately show ?thesis using "1.IH" [OF False] by auto
  qed
qed

lemma str_int_chars: "c \<in> set (str_int i) \<Longrightarrow> c = 45 \<or> (48 \<le> c \<and> c \<le> 57)"
  by (auto simp: str_int_def dest: str_nat_digits split: if_splits)

lemma file_missing_is_file_error: "is_file_error (file_missing_message p)"
proof -
  have "file_missing_message p = [80, 68, 70] @ [25991, 20214, 19981, 23384, 22312] @ ([58, 32] @ p)"
    by (simp add: file_missing_message_def)
  then have "sublist [25991, 20214, 19981, 23384, 22312] (file_missing_message p)"
    unfolding sublist_def by blast
  then show ?thesis
    by (simp add: is_file_error_def contains_sublist)
qed

lemma missing_document_not_file_error: "\<not> is_file_error (missing_document_message i)"
proof -
  have chars: "\<And>c. c \<in> set (missing_document_message i) \<Longrightarrow> c \<noteq> 20214 \<and> c \<noteq> 26080"
    by (auto simp: missing_document_message_def dest: str_int_chars)
  have "\<not> contains (missing_document_message i) [25991, 20214, 19981, 23384, 22312]"
    using chars contains_set by fastforce
  moreover have "\<not> contains (missing_document_message i) [26080, 27861, 35835, 21462]"
    using chars contains_set by fastforce
  ultimately show ?thesis
    by (simp add: is_file_error_def)
qed

lemma sample_missing_message: "missing_document_message 7 = [25991, 26723, 32, 55, 32, 19981, 23384, 22312]"
  by (simp add: missing_document_message_def str_int_def str_nat.simps)

lemma duplicate_not_file_error: "\<not> is_file_error [100, 117, 112, 108, 105, 99, 97, 116, 101]"
  by (simp add: is_file_error_def)

lemma nul_not_file_error: "\<not> is_file_error [78, 85, 76]"
  by (simp add: is_file_error_def)

text \<open>What \<open>strip\<close> leaves of a text: the part between the leading and the trailing
  whitespace.\<close>

lemma dropWhile_lead:
  "list_all isspace lead \<Longrightarrow> rest = [] \<or> \<not> isspace (hd rest) \<Longrightarrow> dropWhile isspace (lead @ rest) = rest"
  by (induction lead) (auto simp: dropWhile_eq_self_iff)

lemma strip_core:
  assumes "list_all isspace lead" and "list_all isspace trail"
    and "core = [] \<or> (\<not> isspace (hd core) \<and> \<not> isspace (last core))"
  shows "strip (lead @ core @ trail) = core"
proof (cases "core = []")
  case True
  have "\<forall>c\<in>set (lead @ trail). isspace c"
    using assms(1,2) by (auto simp: list_all_iff)
  then have blank: "dropWhile isspace (lead @ trail) = []"
    by (simp only: dropWhile_eq_Nil_conv)
  show ?thesis
    by (simp only: True strip_def append_Nil blank rev.simps dropWhile.simps)
next
  case False
  with assms(3) have ends: "\<not> isspace (hd core)" "\<not> isspace (last core)"
    by simp_all
  have "dropWhile isspace (lead @ (core @ trail)) = core @ trail"
    using assms(1) False ends(1) by (intro dropWhile_lead) simp_all
  moreover have "dropWhile isspace (rev trail @ rev core) = rev core"
    using assms(2) False ends(2) by (intro dropWhile_lead) (simp_all add: list_all_iff hd_rev)
  ultimately show ?thesis
    by (simp add: strip_def)
qed

section \<open>Facts about the selector\<close>

lemma pymupdf_log: "extract_with_pymupdf e p = (r, log) \<Longrightarrow> \<not> pdfplumber_ran log"
  by (auto simp: extract_with_pymupdf_def pdfplumber_ran_def Let_def split: option.splits)

lemma pdfplumber_log: "extract_with_pdfplumber e p = (r, log) \<Longrightarrow> pdfplumber_ran log"
  by (auto simp: extract_with_pdfplumber_def pdfplumber_ran_def Let_def split: option.splits)

lemma selector_raises: "\<not> path_exists e p \<Longrightarrow> fst (extract_text_from_pdf e p) = Inl (FileNotFoundError (file_missing_message p))"
  by (simp add: extract_text_from_pdf_def)

lemma selector_length: "fst (extract_text_from_pdf e p) = Inr res \<Longrightarrow> res_text_length res = length (res_text res)"
  by (auto simp: extract_text_from_pdf_def Let_def split: if_splits prod.splits)

lemma sample_selector:
  "fst (extract_text_from_pdf sample_env [47, 97]) =
     Inr \<lparr>res_text = [10, 45, 45, 45, 32, 31532, 32, 49, 32, 39029, 32, 45, 45, 45, 10, 104, 105, 33],
          res_text_length = 18, res_page_count = 1, res_method = ''pdfplumber''\<rparr>"
  by (simp add: extract_text_from_pdf_def extract_with_pymupdf_def extract_with_pdfplumber_def
      sample_env_def page_header_def str_nat.simps strip_def isspace_def)

lemma nul_selector:
  "fst (extract_text_from_pdf nul_env [47, 97]) =
     Inr \<lparr>res_text = [10, 45, 45, 45, 32, 31532, 32, 49, 32, 39029, 32, 45, 45, 45, 10, 104, 0, 105],
          res_text_length = 18, res_page_count = 1, res_method = ''pdfplumber''\<rparr>"
  by (simp add: extract_text_from_pdf_def extract_with_pymupdf_def extract_with_pdfplumber_def
      nul_env_def sample_env_def page_header_def str_nat.simps strip_def isspace_def)

section \<open>Facts about the tables\<close>

lemma update_first_no_match: "find P xs = None \<Longrightarrow> update_first P f xs = xs"
  by (induction xs) (auto split: if_splits)

lemma find_update_first:
  "(\<And>x. P x \<Longrightarrow> P (f x)) \<Longrightarrow> find P (update_first P f xs) = map_option f (find P xs)"
  by (induction xs) auto

lemma update_first_append_new:
  "find P xs = None \<Longrightarrow> P y \<Longrightarrow> update_first P f (xs @ [y]) = xs @ [f y]"
  by (induction xs) (auto split: if_splits)

lemma find_append_new:
  "find P (xs @ [y]) = (case find P xs of Some x \<Rightarrow> Some x | None \<Rightarrow> if P y then Some y else None)"
  by (induction xs) auto

lemma map_update_first: "(\<And>x. k (f x) = k x) \<Longrightarrow> map k (update_first P f xs) = map k xs"
  by (induction xs) auto

lemma list_all_update_first: "list_all Q xs \<Longrightarrow> (\<And>x. Q (f x)) \<Longrightarrow> list_all Q (update_first P f xs)"
  by (induction xs) auto

lemma find_no_key: "v \<notin> set (map k xs) \<Longrightarrow> find (\<lambda>x. k x = v) xs = None"
  by (induction xs) auto

lemma foldr_max_ge: "t \<in> set ts \<Longrightarrow> task_pk t \<le> foldr max (map task_pk ts) 0"
  by (induction ts) auto

lemma next_pk_fresh: "find (\<lambda>t. task_pk t = next_pk ts) ts = None"
proof -
  have "\<And>t. t \<in> set ts \<Longrightarrow> task_pk t \<noteq> next_pk ts"
    using foldr_max_ge [of _ ts] by (fastforce simp: next_pk_def)
  then show ?thesis
    by (auto simp: find_None_iff)
qed

lemma set_new_task:
  "update_first (\<lambda>t. task_pk t = next_pk (processing_tasks d)) f (processing_tasks d @ [new_task req i d])
     = processing_tasks d @ [f (new_task req i d)]"
  by (rule update_first_append_new) (simp_all add: next_pk_fresh new_task_def)

section \<open>One run of the worker task\<close>

text \<open>
  A run either returns, or ends in the \<open>except\<close> block, which writes what it can of the
  failure to the committed tables and decides from the error and the retry count.
\<close>

lemma except_handler_eq:
  "except_handler e req i err s = (s', out) \<Longrightarrow>
     committed s' = record_failure e req i err (committed s) \<and> out = decide req err"
  by (auto simp: except_handler_def fail_document_def fail_task_def record_failure_def decide_def
      document_write_def task_write_def Let_def rollback_def commit_def
      set_document_def set_task_def query_document_def query_task_def failed_document_def [abs_def]
      failed_task_def [abs_def] update_first_no_match
      split: option.splits if_splits)

lemma task_eq:
  "extract_pdf_text_task e req i d =
     (case try_body e req i (SessionLocal d) of
        (s, Inr ret) \<Rightarrow> (committed s, Returned ret)
      | (s, Inl err) \<Rightarrow> (record_failure e req i err (committed s), decide req err))"
  using except_handler_eq
  by (auto simp: extract_pdf_text_task_def split: prod.splits sum.splits)

text \<open>Where the \<open>try\<close> block can stop, and what is committed by then.\<close>

lemma try_body_fails:
  assumes "try_body e req i (SessionLocal d) = (s, Inl err)"
  shows "(insert_error e req i (processing_tasks d) = Some err \<and> committed s = d)
       \<or> (insert_error e req i (processing_tasks d) = None
           \<and> (committed s = started req i d \<or> committed s = in_progress req i d))"
  using assms
  by (auto simp: try_body_def Let_def commit_insert_def db_add_def SessionLocal_def commit_def
      query_document_def set_document_def set_task_def started_def in_progress_def new_task_def
      commit_result_def
      split: option.splits sum.splits)

lemma try_body_returns:
  assumes "try_body e req i (SessionLocal d) = (s, Inr ret)"
  shows "\<exists>doc res. find (\<lambda>x. doc_id x = i) (documents d) = Some doc
           \<and> fst (extract_text_from_pdf e (file_path doc)) = Inr res
           \<and> result_error e req i res = None
           \<and> ret = \<lparr>ret_document_id = i, ret_text_length = res_text_length res,
                    ret_page_count = res_page_count res, ret_status = ''success''\<rparr>
           \<and> committed s =
               d\<lparr>documents := update_first (\<lambda>x. doc_id x = i) (completed_document res)
                                (documents (in_progress req i d)),
                 processing_tasks := processing_tasks d @ [succeeded_task res (new_task req i d)]\<rparr>"
  using assms set_new_task [of d _ req i]
  by (auto simp: try_body_def Let_def commit_insert_def db_add_def SessionLocal_def commit_def
      query_document_def set_document_def set_task_def in_progress_def new_task_def
      commit_result_def completed_document_def [abs_def] succeeded_task_def [abs_def]
      split: option.splits sum.splits)

text \<open>
  The ways a run can go: the insert is refused; the document has no row; the selector
  raises; the result is refused; the run returns.
\<close>

lemma attempt_rejected:
  assumes "insert_error e req i (processing_tasks d) = Some err"
  shows "extract_pdf_text_task e req i d = (record_failure e req i err d, decide req err)"
  using assms
  by (simp add: task_eq try_body_def Let_def commit_insert_def db_add_def SessionLocal_def)

lemma attempt_missing_document:
  assumes "insert_error e req i (processing_tasks d) = None"
    and "fault e req i Refresh_task = None" and "fault e req i Find_document = None"
    and "find (\<lambda>x. doc_id x = i) (documents d) = None"
  shows "extract_pdf_text_task e req i d =
           (record_failure e req i (Exception (missing_document_message i)) (started req i d),
            decide req (Exception (missing_document_message i)))"
  using assms
  by (simp add: task_eq try_body_def Let_def commit_insert_def db_add_def SessionLocal_def commit_def
      query_document_def started_def new_task_def)

lemma attempt_raises:
  assumes "insert_error e req i (processing_tasks d) = None"
    and "\<And>st. fault e req i st = None"
    and "find (\<lambda>x. doc_id x = i) (documents d) = Some doc"
    and "fst (extract_text_from_pdf e (file_path doc)) = Inl err"
  shows "extract_pdf_text_task e req i d = (record_failure e req i err (in_progress req i d), decide req err)"
  using assms
  by (cases d)
     (simp add: task_eq try_body_def Let_def commit_insert_def db_add_def SessionLocal_def commit_def
      query_document_def in_progress_def new_task_def set_document_def)

lemma attempt_store_fails:
  assumes "insert_error e req i (processing_tasks d) = None"
    and "\<And>st. st \<noteq> Store_result \<Longrightarrow> fault e req i st = None"
    and "find (\<lambda>x. doc_id x = i) (documents d) = Some doc"
    and "fst (extract_text_from_pdf e (file_path doc)) = Inr res"
    and "result_error e req i res = Some err"
  shows "extract_pdf_text_task e req i d = (record_failure e req i err (in_progress req i d), decide req err)"
  using assms
  by (cases d)
     (simp add: task_eq try_body_def Let_def commit_insert_def db_add_def SessionLocal_def commit_def
      query_document_def in_progress_def new_task_def set_document_def set_task_def commit_result_def)

lemma attempt_returns:
  assumes "insert_error e req i (processing_tasks d) = None"
    and "\<And>st. fault e req i st = None"
    and "find (\<lambda>x. doc_id x = i) (documents d) = Some doc"
    and "fst (extract_text_from_pdf e (file_path doc)) = Inr res"
    and "result_error e req i res = None"
  shows "extract_pdf_text_task e req i d =
           (d\<lparr>documents := update_first (\<lambda>x. doc_id x = i) (completed_document res)
                              (documents (in_progress req i d)),
              processing_tasks := processing_tasks d @ [succeeded_task res (new_task req i d)]\<rparr>,
            Returned \<lparr>ret_document_id = i, ret_text_length = res_text_length res,
                      ret_page_count = res_page_count res, ret_status = ''success''\<rparr>)"
  using assms set_new_task [of d _ req i]
  by (simp add: task_eq try_body_def Let_def commit_insert_def db_add_def SessionLocal_def commit_def
      query_document_def set_document_def set_task_def in_progress_def new_task_def
      commit_result_def completed_document_def [abs_def] succeeded_task_def [abs_def])

lemma attempt_fails:
  assumes "extract_pdf_text_task e req i d = (d', out)" and "\<forall>ret. out \<noteq> Returned ret"
  obtains err d0 where "d' = record_failure e req i err d0" and "out = decide req err"
    and "d0 = d \<or> d0 = started req i d \<or> d0 = in_progress req i d"
  using assms try_body_fails [of e req i d]
  by (fastforce simp: task_eq split: prod.splits sum.splits)

lemma attempt_outcome:
  "extract_pdf_text_task e req i d = (d', out) \<Longrightarrow> (\<exists>ret. out = Returned ret) \<or> (\<exists>err. out = decide req err)"
  by (auto simp: task_eq split: prod.splits sum.splits)

lemma decide_cases: "(\<exists>c. decide req err = Retry err c) \<or> decide req err = Raised err"
  by (simp add: decide_def)

lemma decide_error: "decide req err = Retry err' c \<or> decide req err = Raised err' \<Longrightarrow> err' = err"
  by (auto simp: decide_def split: if_splits)

text \<open>What the handler leaves of the document and of the task row with the request's id.\<close>

lemma record_failure_document:
  "find (\<lambda>x. doc_id x = i) (documents (record_failure e req i err d)) =
     (if document_write e req i err
      then map_option (failed_document err) (find (\<lambda>x. doc_id x = i) (documents d))
      else find (\<lambda>x. doc_id x = i) (documents d))"
  by (simp add: record_failure_def find_update_first failed_document_def)

lemma record_failure_task:
  "find (\<lambda>t. task_id t = req_id req) (processing_tasks (record_failure e req i err d)) =
     (if task_write e req i err
      then map_option (failed_task err) (find (\<lambda>t. task_id t = req_id req) (processing_tasks d))
      else find (\<lambda>t. task_id t = req_id req) (processing_tasks d))"
  by (simp add: record_failure_def find_update_first failed_task_def)

lemma find_in_progress:
  "find (\<lambda>x. doc_id x = i) (documents (in_progress req i d)) =
     map_option (\<lambda>x. x\<lparr>extraction_status := ''processing''\<rparr>) (find (\<lambda>x. doc_id x = i) (documents d))"
  by (simp add: in_progress_def find_update_first)

lemma stored_id_rejected:
  assumes "find (\<lambda>t. task_id t = req_id req) (processing_tasks d) = Some t"
  shows "insert_error e req i (processing_tasks d) \<noteq> None"
proof -
  from assms have "t \<in> set (processing_tasks d) \<and> task_id t = req_id req"
    by (auto simp: find_Some_iff)
  then have "req_id req \<in> set (map task_id (processing_tasks d))"
    by force
  then show ?thesis
    by (simp add: insert_error_def split: option.splits)
qed

lemma attempt_document:
  assumes "extract_pdf_text_task e req i d = (d', out)" and "\<forall>ret. out \<noteq> Returned ret"
  obtains err where "out = decide req err"
    and "(find (\<lambda>x. doc_id x = i) (documents d') = None) = (find (\<lambda>x. doc_id x = i) (documents d) = None)"
    and "document_write e req i err \<longrightarrow>
          find (\<lambda>x. doc_id x = i) (documents d')
            = map_option (failed_document err) (find (\<lambda>x. doc_id x = i) (documents d))"
proof -
  from assms obtain err d0 where d': "d' = record_failure e req i err d0" and out: "out = decide req err"
    and d0: "d0 = d \<or> d0 = started req i d \<or> d0 = in_progress req i d"
    by (blast elim: attempt_fails)
  from d0 have "find (\<lambda>x. doc_id x = i) (documents d0) = find (\<lambda>x. doc_id x = i) (documents d)
      \<or> find (\<lambda>x. doc_id x = i) (documents d0)
          = map_option (\<lambda>x. x\<lparr>extraction_status := ''processing''\<rparr>) (find (\<lambda>x. doc_id x = i) (documents d))"
    by (auto simp: started_def find_in_progress)
  then have both: "(find (\<lambda>x. doc_id x = i) (documents d') = None) = (find (\<lambda>x. doc_id x = i) (documents d) = None)
     \<and> (document_write e req i err \<longrightarrow>
          find (\<lambda>x. doc_id x = i) (documents d')
            = map_option (failed_document err) (find (\<lambda>x. doc_id x = i) (documents d)))"
    by (cases "find (\<lambda>x. doc_id x = i) (documents d)")
       (auto simp: d' record_failure_document failed_document_def)
  show thesis
  proof (rule that [of err])
    show "out = decide req err"
      by (rule out)
    show "(find (\<lambda>x. doc_id x = i) (documents d') = None) = (find (\<lambda>x. doc_id x = i) (documents d) = None)"
      using both by (rule conjunct1)
    show "document_write e req i err \<longrightarrow>
          find (\<lambda>x. doc_id x = i) (documents d')
            = map_option (failed_document err) (find (\<lambda>x. doc_id x = i) (documents d))"
      using both by (rule conjunct2)
  qed
qed

lemma length_consistent_failed: "length_consistent (failed_document err x)"
  by (simp add: length_consistent_def failed_document_def)

lemma length_consistent_processing: "length_consistent (x\<lparr>extraction_status := ''processing''\<rparr>)"
  by (simp add: length_consistent_def)

lemma length_consistent_completed:
  "res_text_length res = length (res_text res) \<Longrightarrow> length_consistent (completed_document res x)"
  by (simp add: length_consistent_def completed_document_def)

lemma record_failure_consistent:
  "list_all length_consistent (documents d) \<Longrightarrow> list_all length_consistent (documents (record_failure e req i err d))"
  by (simp add: record_failure_def list_all_update_first length_consistent_failed)

lemma in_progress_consistent:
  "list_all length_consistent (documents d) \<Longrightarrow> list_all length_consistent (documents (in_progress req i d))"
  by (simp add: in_progress_def list_all_update_first length_consistent_processing)

section \<open>All runs of one message\<close>

lemma run_task_Retry:
  "extract_pdf_text_task e req i d = (d', Retry err c) \<Longrightarrow>
     run_task e req i d =
       (fst (run_task e (req\<lparr>retries := retries req + 1\<rparr>) i d'),
        Retry err c # snd (run_task e (req\<lparr>retries := retries req + 1\<rparr>) i d'))"
  by (subst run_task.simps) (simp add: split_beta)

lemma run_task_Raised:
  "extract_pdf_text_task e req i d = (d', Raised err) \<Longrightarrow> run_task e req i d = (d', [Raised err])"
  by (subst run_task.simps) simp

lemma run_task_Returned:
  "extract_pdf_text_task e req i d = (d', Returned ret) \<Longrightarrow> run_task e req i d = (d', [Returned ret])"
  by (subst run_task.simps) simp

lemma run_trace_Retry:
  "extract_pdf_text_task e req i d = (d', Retry err c) \<Longrightarrow>
     run_trace e req i d = (req, d', Retry err c) # run_trace e (req\<lparr>retries := retries req + 1\<rparr>) i d'"
  by (subst run_trace.simps) simp

lemma run_trace_Raised:
  "extract_pdf_text_task e req i d = (d', Raised err) \<Longrightarrow> run_trace e req i d = [(req, d', Raised err)]"
  by (subst run_trace.simps) simp

lemma run_trace_Returned:
  "extract_pdf_text_task e req i d = (d', Returned ret) \<Longrightarrow> run_trace e req i d = [(req, d', Returned ret)]"
  by (subst run_trace.simps) simp

text \<open>The trace of a message lists the outcomes that \<open>run_task\<close> collects, and ends in
  the tables that \<open>run_task\<close> returns.\<close>

lemma run_trace_outcomes:
  "map (\<lambda>(rq, d', out). out) (run_trace e req i d) = snd (run_task e req i d)"
proof (induction e req i d rule: run_task.induct)
  case (1 e req i d)
  obtain d' out where step: "extract_pdf_text_task e req i d = (d', out)"
    by (cases "extract_pdf_text_task e req i d")
  show ?case
  proof (cases out)
    case (Returned ret)
    with step show ?thesis
      by (simp add: run_task_Returned run_trace_Returned)
  next
    case (Raised err)
    with step show ?thesis
      by (simp add: run_task_Raised run_trace_Raised)
  next
    case (Retry err c)
    with step "1.IH" [of d' out err c] show ?thesis
      by (simp add: run_task_Retry run_trace_Retry)
  qed
qed

text \<open>
  When every run of a message ends in an error that is not a file error, the runs go on
  until the retry count is 3: the countdowns are 60 times the retry counts plus one, and
  the last run raises.
\<close>

lemma run_task_transient:
  assumes "list_all transient_failure (snd (run_task e req i d))" and "retries req \<le> 3"
  shows "countdowns (snd (run_task e req i d)) = map (\<lambda>k. 60 * (k + 1)) [retries req..<3]
     \<and> length (snd (run_task e req i d)) = 4 - retries req
     \<and> (\<exists>err. last (snd (run_task e req i d)) = Raised err)"
  using assms
proof (induction e req i d rule: run_task.induct)
  case (1 e req i d)
  obtain d' out where step: "extract_pdf_text_task e req i d = (d', out)"
    by (cases "extract_pdf_text_task e req i d")
  show ?case
  proof (cases out)
    case (Returned ret)
    with step "1.prems"(1) show ?thesis
      by (simp add: run_task_Returned)
  next
    case (Raised err)
    with step "1.prems"(1) have nf: "\<not> is_file_error (str_exc err)"
      by (simp add: run_task_Raised)
    from attempt_outcome [OF step] Raised obtain err' where "Raised err = decide req err'"
      by auto
    with nf have "\<not> retries req < 3"
      by (auto simp: decide_def split: if_splits)
    with "1.prems"(2) have "retries req = 3"
      by simp
    with step Raised show ?thesis
      by (simp add: run_task_Raised)
  next
    case (Retry err c)
    let ?req = "req\<lparr>retries := retries req + 1\<rparr>"
    from attempt_outcome [OF step] Retry obtain err' where "Retry err c = decide req err'"
      by auto
    then have lt: "retries req < 3" and c: "c = 60 * (retries req + 1)"
      by (auto simp: decide_def split: if_splits)
    have run: "snd (run_task e req i d) = Retry err c # snd (run_task e ?req i d')"
      using step Retry by (simp add: run_task_Retry)
    with "1.prems"(1) have tail: "list_all transient_failure (snd (run_task e ?req i d'))"
      by simp
    have ih: "countdowns (snd (run_task e ?req i d')) = map (\<lambda>k. 60 * (k + 1)) [retries ?req..<3]
       \<and> length (snd (run_task e ?req i d')) = 4 - retries ?req
       \<and> (\<exists>err. last (snd (run_task e ?req i d')) = Raised err)"
      using "1.IH" [of d' out err c] step Retry tail lt by simp
    then have ne: "snd (run_task e ?req i d') \<noteq> []"
      using lt by auto
    have "[retries req..<3] = retries req # [retries req + 1..<3]"
      using lt by (simp add: upt_conv_Cons)
    with ih c lt ne show ?thesis
      by (simp add: run)
  qed
qed

text \<open>The retry counts of the requests of a message's runs count up from the first.\<close>

lemma run_trace_retries:
  "map (\<lambda>(rq, d', out). retries rq) (run_trace e req i d)
     = [retries req..<retries req + length (run_trace e req i d)]"
proof (induction e req i d rule: run_trace.induct)
  case (1 e req i d)
  obtain d' out where step: "extract_pdf_text_task e req i d = (d', out)"
    by (cases "extract_pdf_text_task e req i d")
  show ?case
  proof (cases out)
    case (Returned ret)
    with step show ?thesis
      by (simp add: run_trace_Returned)
  next
    case (Raised err)
    with step show ?thesis
      by (simp add: run_trace_Raised)
  next
    case (Retry err c)
    let ?rest = "run_trace e (req\<lparr>retries := retries req + 1\<rparr>) i d'"
    have "[retries req..<retries req + Suc (length ?rest)]
            = retries req # [Suc (retries req)..<Suc (retries req) + length ?rest]"
      by (simp add: upt_conv_Cons del: upt_Suc)
    with step Retry "1.IH" [of d' out err c] show ?thesis
      by (simp add: run_trace_Retry del: upt_Suc)
  qed
qed

text \<open>Every failed run of a message leaves the document as the handler wrote it.\<close>

lemma run_trace_marks:
  assumes "list_all transient_failure (snd (run_task e req i d))"
    and "(find (\<lambda>x. doc_id x = i) (documents d) = None) = (find (\<lambda>x. doc_id x = i) (documents d0) = None)"
  shows "list_all (marks_document e i d0) (run_trace e req i d)"
  using assms
proof (induction e req i d rule: run_trace.induct)
  case (1 e req i d)
  obtain d' out where step: "extract_pdf_text_task e req i d = (d', out)"
    by (cases "extract_pdf_text_task e req i d")
  have fails: "\<forall>ret. out \<noteq> Returned ret"
    using step "1.prems"(1) by (cases out) (auto simp: run_task_Returned)
  from step fails obtain err where out: "out = decide req err"
    and same: "(find (\<lambda>x. doc_id x = i) (documents d') = None) = (find (\<lambda>x. doc_id x = i) (documents d) = None)"
    and mark: "document_write e req i err \<longrightarrow>
          find (\<lambda>x. doc_id x = i) (documents d')
            = map_option (failed_document err) (find (\<lambda>x. doc_id x = i) (documents d))"
    by (rule attempt_document)
  have marked: "document_marked e req i d0 err d'"
    using same mark "1.prems"(2)
    by (auto simp: document_marked_def failed_document_def split: option.splits if_splits)
  show ?case
  proof (cases out)
    case (Returned ret)
    with fails show ?thesis
      by simp
  next
    case (Raised err')
    with out have "err' = err"
      using decide_error [of req err err'] by simp
    with step Raised marked show ?thesis
      by (simp add: run_trace_Raised)
  next
    case (Retry err' c)
    let ?req = "req\<lparr>retries := retries req + 1\<rparr>"
    from out Retry have eq: "err' = err"
      using decide_error [of req err err' c] by simp
    have "snd (run_task e req i d) = Retry err' c # snd (run_task e ?req i d')"
      using step Retry by (simp add: run_task_Retry)
    with "1.prems"(1) have tail: "list_all transient_failure (snd (run_task e ?req i d'))"
      by simp
    have "list_all (marks_document e i d0) (run_trace e ?req i d')"
      using "1.IH" [of d' out err' c] step Retry tail same "1.prems"(2) by simp
    with step Retry marked eq show ?thesis
      by (simp add: run_trace_Retry)
  qed
qed

section \<open>Runs in the sample environments\<close>

lemma update_first_idem:
  "(\<And>x. P x \<Longrightarrow> P (f x)) \<Longrightarrow> (\<And>x. f (f x) = f x) \<Longrightarrow>
     update_first P f (update_first P f xs) = update_first P f xs"
  by (induction xs) auto

lemma upt_to_3: "[0..<3] = [0, Suc 0, 2]" "[Suc 0..<3] = [Suc 0, 2]" "[2..<3] = [2]" "[3..<3] = []"
  by (simp_all add: upt_conv_Cons)

lemma sample_insert_error:
  assumes "e = sample_env \<or> e = nul_env" and "tid = ''t1'' \<or> tid = ''t2''"
  shows "insert_error e \<lparr>req_id = tid, retries = n\<rparr> 7 ts =
           (if tid \<in> set (map task_id ts)
            then Some (IntegrityError [100, 117, 112, 108, 105, 99, 97, 116, 101]) else None)"
proof -
  have "storable_id tid" and "\<not> 100 < length tid"
    using assms(2) by (auto simp: storable_id_def)
  moreover have "fault e \<lparr>req_id = tid, retries = n\<rparr> 7 Insert_task = None"
    and "unique_violation e \<lparr>req_id = tid, retries = n\<rparr> 7 = [100, 117, 112, 108, 105, 99, 97, 116, 101]"
    using assms(1) by (auto simp: sample_env_def nul_env_def)
  ultimately show ?thesis
    by (simp add: insert_error_def in_integer_def)
qed

lemma sample_writes:
  assumes "e = sample_env \<or> e = nul_env" and "tid = ''t1'' \<or> tid = ''t2''" and "storable (str_exc err)"
  shows "document_write e \<lparr>req_id = tid, retries = n\<rparr> 7 err"
    and "task_write e \<lparr>req_id = tid, retries = n\<rparr> 7 err"
proof -
  have "storable_id tid"
    using assms(2) by (auto simp: storable_id_def)
  moreover have "fault e \<lparr>req_id = tid, retries = n\<rparr> 7 Fail_document = None"
    and "fault e \<lparr>req_id = tid, retries = n\<rparr> 7 Fail_task = None"
    using assms(1) by (auto simp: sample_env_def nul_env_def)
  ultimately show "document_write e \<lparr>req_id = tid, retries = n\<rparr> 7 err"
    and "task_write e \<lparr>req_id = tid, retries = n\<rparr> 7 err"
    using assms(3) by (simp_all add: document_write_def task_write_def)
qed

lemma sample_no_fault:
  "e = sample_env \<or> e = nul_env \<Longrightarrow> fault e rq i st = None"
  by (auto simp: sample_env_def nul_env_def)

text \<open>A run of a message whose task id is stored already: the insert is refused, and the
  handler writes the driver's message to the document and to the stored row.\<close>

lemma sample_rejected_run:
  assumes "e = sample_env \<or> e = nul_env" and "tid = ''t1'' \<or> tid = ''t2''"
    and "tid \<in> set (map task_id ts)"
  shows "extract_pdf_text_task e \<lparr>req_id = tid, retries = n\<rparr> 7 \<lparr>documents = ds, processing_tasks = ts\<rparr> =
     (\<lparr>documents = update_first (\<lambda>x. doc_id x = 7)
                      (failed_document (IntegrityError [100, 117, 112, 108, 105, 99, 97, 116, 101])) ds,
       processing_tasks = update_first (\<lambda>t. task_id t = tid)
                      (failed_task (IntegrityError [100, 117, 112, 108, 105, 99, 97, 116, 101])) ts\<rparr>,
      if n < 3 then Retry (IntegrityError [100, 117, 112, 108, 105, 99, 97, 116, 101]) (60 * (n + 1))
      else Raised (IntegrityError [100, 117, 112, 108, 105, 99, 97, 116, 101]))"
proof -
  let ?dup = "IntegrityError [100, 117, 112, 108, 105, 99, 97, 116, 101]"
  have "insert_error e \<lparr>req_id = tid, retries = n\<rparr> 7
          (processing_tasks \<lparr>documents = ds, processing_tasks = ts\<rparr>) = Some ?dup"
    using assms by (simp add: sample_insert_error)
  then have "extract_pdf_text_task e \<lparr>req_id = tid, retries = n\<rparr> 7 \<lparr>documents = ds, processing_tasks = ts\<rparr>
      = (record_failure e \<lparr>req_id = tid, retries = n\<rparr> 7 ?dup \<lparr>documents = ds, processing_tasks = ts\<rparr>,
         decide \<lparr>req_id = tid, retries = n\<rparr> ?dup)"
    by (rule attempt_rejected)
  moreover have "document_write e \<lparr>req_id = tid, retries = n\<rparr> 7 ?dup"
    and "task_write e \<lparr>req_id = tid, retries = n\<rparr> 7 ?dup"
    using assms(1,2) by (simp_all add: sample_writes storable_def)
  ultimately show ?thesis
    using duplicate_not_file_error by (simp add: record_failure_def decide_def)
qed

text \<open>All runs of such a message, from retry count \<open>n\<close> on.\<close>

lemma sample_rejected_runs:
  assumes "e = sample_env \<or> e = nul_env" and "tid = ''t1'' \<or> tid = ''t2''"
    and "tid \<in> set (map task_id ts)" and "n \<le> 3"
  shows "run_task e \<lparr>req_id = tid, retries = n\<rparr> 7 \<lparr>documents = ds, processing_tasks = ts\<rparr> =
     (\<lparr>documents = update_first (\<lambda>x. doc_id x = 7)
                      (failed_document (IntegrityError [100, 117, 112, 108, 105, 99, 97, 116, 101])) ds,
       processing_tasks = update_first (\<lambda>t. task_id t = tid)
                      (failed_task (IntegrityError [100, 117, 112, 108, 105, 99, 97, 116, 101])) ts\<rparr>,
      map (\<lambda>k. Retry (IntegrityError [100, 117, 112, 108, 105, 99, 97, 116, 101]) (60 * (k + 1))) [n..<3]
        @ [Raised (IntegrityError [100, 117, 112, 108, 105, 99, 97, 116, 101])])"
  using assms(3,4)
proof (induction "3 - n" arbitrary: n ds ts)
  case 0
  then have "n = 3"
    by simp
  then show ?case
    using sample_rejected_run [OF assms(1,2) "0.prems"(1), of 3 ds]
    by (simp add: run_task_Raised)
next
  case (Suc m)
  let ?dup = "IntegrityError [100, 117, 112, 108, 105, 99, 97, 116, 101]"
  let ?ds = "update_first (\<lambda>x. doc_id x = 7) (failed_document ?dup) ds"
  let ?ts = "update_first (\<lambda>t. task_id t = tid) (failed_task ?dup) ts"
  from Suc.hyps(2) have lt: "n < 3"
    by simp
  have step: "extract_pdf_text_task e \<lparr>req_id = tid, retries = n\<rparr> 7 \<lparr>documents = ds, processing_tasks = ts\<rparr>
      = (\<lparr>documents = ?ds, processing_tasks = ?ts\<rparr>, Retry ?dup (60 * (n + 1)))"
    using sample_rejected_run [OF assms(1,2) Suc.prems(1), of n ds] lt by simp
  have stored: "tid \<in> set (map task_id ?ts)"
    using Suc.prems(1) by (simp add: map_update_first failed_task_def)
  have "update_first (\<lambda>x. doc_id x = 7) (failed_document ?dup) ?ds = ?ds"
    by (rule update_first_idem) (simp_all add: failed_document_def)
  moreover have "update_first (\<lambda>t. task_id t = tid) (failed_task ?dup) ?ts = ?ts"
    by (rule update_first_idem) (simp_all add: failed_task_def)
  moreover have "m = 3 - Suc n" and "Suc n \<le> 3"
    using Suc.hyps(2) by simp_all
  ultimately have rest: "run_task e \<lparr>req_id = tid, retries = Suc n\<rparr> 7 \<lparr>documents = ?ds, processing_tasks = ?ts\<rparr>
      = (\<lparr>documents = ?ds, processing_tasks = ?ts\<rparr>,
         map (\<lambda>k. Retry ?dup (60 * (k + 1))) [Suc n..<3] @ [Raised ?dup])"
    using Suc.hyps(1) [of "Suc n" ?ts ?ds] stored by simp
  have "[n..<3] = n # [Suc n..<3]"
    using lt by (simp add: upt_conv_Cons)
  with rest show ?case
    by (simp add: run_task_Retry [OF step])
qed

lemma sample_rejected_trace:
  assumes "e = sample_env \<or> e = nul_env" and "tid = ''t1'' \<or> tid = ''t2''"
    and "tid \<in> set (map task_id ts)" and "n \<le> 3"
  shows "run_trace e \<lparr>req_id = tid, retries = n\<rparr> 7 \<lparr>documents = ds, processing_tasks = ts\<rparr> =
     map (\<lambda>k. (\<lparr>req_id = tid, retries = k\<rparr>,
                \<lparr>documents = update_first (\<lambda>x. doc_id x = 7)
                      (failed_document (IntegrityError [100, 117, 112, 108, 105, 99, 97, 116, 101])) ds,
                  processing_tasks = update_first (\<lambda>t. task_id t = tid)
                      (failed_task (IntegrityError [100, 117, 112, 108, 105, 99, 97, 116, 101])) ts\<rparr>,
                if k < 3 then Retry (IntegrityError [100, 117, 112, 108, 105, 99, 97, 116, 101]) (60 * (k + 1))
                else Raised (IntegrityError [100, 117, 112, 108, 105, 99, 97, 116, 101])))
       [n..<4]"
  using assms(3,4)
proof (induction "3 - n" arbitrary: n ds ts)
  case 0
  then have "n = 3"
    by simp
  then show ?case
    using sample_rejected_run [OF assms(1,2) "0.prems"(1), of 3 ds]
    by (simp add: run_trace_Raised upt_conv_Cons)
next
  case (Suc m)
  let ?dup = "IntegrityError [100, 117, 112, 108, 105, 99, 97, 116, 101]"
  let ?ds = "update_first (\<lambda>x. doc_id x = 7) (failed_document ?dup) ds"
  let ?ts = "update_first (\<lambda>t. task_id t = tid) (failed_task ?dup) ts"
  from Suc.hyps(2) have lt: "n < 3"
    by simp
  have step: "extract_pdf_text_task e \<lparr>req_id = tid, retries = n\<rparr> 7 \<lparr>documents = ds, processing_tasks = ts\<rparr>
      = (\<lparr>documents = ?ds, processing_tasks = ?ts\<rparr>, Retry ?dup (60 * (n + 1)))"
    using sample_rejected_run [OF assms(1,2) Suc.prems(1), of n ds] lt by simp
  have stored: "tid \<in> set (map task_id ?ts)"
    using Suc.prems(1) by (simp add: map_update_first failed_task_def)
  have "update_first (\<lambda>x. doc_id x = 7) (failed_document ?dup) ?ds = ?ds"
    by (rule update_first_idem) (simp_all add: failed_document_def)
  moreover have "update_first (\<lambda>t. task_id t = tid) (failed_task ?dup) ?ts = ?ts"
    by (rule update_first_idem) (simp_all add: failed_task_def)
  moreover have "m = 3 - Suc n" and "Suc n \<le> 3"
    using Suc.hyps(2) by simp_all
  ultimately have rest: "run_trace e \<lparr>req_id = tid, retries = Suc n\<rparr> 7 \<lparr>documents = ?ds, processing_tasks = ?ts\<rparr>
      = map (\<lambda>k. (\<lparr>req_id = tid, retries = k\<rparr>, \<lparr>documents = ?ds, processing_tasks = ?ts\<rparr>,
                   if k < 3 then Retry ?dup (60 * (k + 1)) else Raised ?dup)) [Suc n..<4]"
    using Suc.hyps(1) [of "Suc n" ?ts ?ds] stored by simp
  have "[n..<4] = n # [Suc n..<4]"
    using lt by (simp add: upt_conv_Cons)
  with rest lt show ?case
    by (simp add: run_trace_Retry [OF step])
qed

text \<open>The first run of message t1 for document id 7 on the empty tables.\<close>

lemma sample_missing_run:
  "extract_pdf_text_task sample_env \<lparr>req_id = ''t1'', retries = 0\<rparr> 7 \<lparr>documents = [], processing_tasks = []\<rparr>
     = (\<lparr>documents = [], processing_tasks = [sample_failed_task]\<rparr>,
        Retry (Exception [25991, 26723, 32, 55, 32, 19981, 23384, 22312]) 60)"
proof -
  let ?req = "\<lparr>req_id = ''t1'', retries = 0\<rparr>"
  let ?d = "\<lparr>documents = [], processing_tasks = []\<rparr>"
  let ?err = "Exception [25991, 26723, 32, 55, 32, 19981, 23384, 22312]"
  have "insert_error sample_env ?req 7 (processing_tasks ?d) = None"
    by (simp add: sample_insert_error)
  then have "extract_pdf_text_task sample_env ?req 7 ?d =
      (record_failure sample_env ?req 7 (Exception (missing_document_message 7)) (started ?req 7 ?d),
       decide ?req (Exception (missing_document_message 7)))"
    by (rule attempt_missing_document) (simp_all add: sample_no_fault)
  moreover have "document_write sample_env ?req 7 ?err" and "task_write sample_env ?req 7 ?err"
    by (simp_all add: sample_writes storable_def)
  moreover have "\<not> is_file_error [25991, 26723, 32, 55, 32, 19981, 23384, 22312]"
    using missing_document_not_file_error [of 7] by (simp add: sample_missing_message)
  ultimately show ?thesis
    by (simp add: sample_missing_message record_failure_def decide_def started_def
        new_task_def next_pk_def failed_task_def sample_failed_task_def)
qed

text \<open>The first run of a message for document 7 in the environment whose text holds
  U+0000: the result is refused at the commit of line 86.\<close>

lemma nul_run:
  assumes "tid = ''t1'' \<or> tid = ''t2''" and "tid \<notin> set (map task_id ts)"
  shows "extract_pdf_text_task nul_env \<lparr>req_id = tid, retries = n\<rparr> 7
           \<lparr>documents = [sample_document], processing_tasks = ts\<rparr>
     = (\<lparr>documents = [sample_nul_document],
         processing_tasks = ts @ [\<lparr>task_pk = next_pk ts, task_id = tid, task_type = ''pdf_extraction'',
                                   status = ''failure'', document_id = 7, result = None,
                                   error_message = Some [78, 85, 76]\<rparr>]\<rparr>,
        if n < 3 then Retry (ValueError [78, 85, 76]) (60 * (n + 1)) else Raised (ValueError [78, 85, 76]))"
proof -
  let ?req = "\<lparr>req_id = tid, retries = n\<rparr>"
  let ?d = "\<lparr>documents = [sample_document], processing_tasks = ts\<rparr>"
  let ?res = "\<lparr>res_text = [10, 45, 45, 45, 32, 31532, 32, 49, 32, 39029, 32, 45, 45, 45, 10, 104, 0, 105],
          res_text_length = 18, res_page_count = 1, res_method = ''pdfplumber''\<rparr>"
  let ?err = "ValueError [78, 85, 76]"
  have ins: "insert_error nul_env ?req 7 (processing_tasks ?d) = None"
    using assms by (simp add: sample_insert_error)
  have doc: "find (\<lambda>x. doc_id x = 7) (documents ?d) = Some sample_document"
    by (simp add: sample_document_def)
  have sel: "fst (extract_text_from_pdf nul_env (file_path sample_document)) = Inr ?res"
    using nul_selector by (simp add: sample_document_def)
  have store: "result_error nul_env ?req 7 ?res = Some ?err"
    by (simp add: result_error_def storable_def nul_env_def sample_env_def)
  have "extract_pdf_text_task nul_env ?req 7 ?d =
      (record_failure nul_env ?req 7 ?err (in_progress ?req 7 ?d), decide ?req ?err)"
    using ins _ doc sel store by (rule attempt_store_fails) (simp add: sample_no_fault)
  moreover have "document_write nul_env ?req 7 ?err" and "task_write nul_env ?req 7 ?err"
    using assms(1) by (simp_all add: sample_writes storable_def)
  moreover have none: "find (\<lambda>t. task_id t = tid) ts = None"
    using assms(2) by (rule find_no_key)
  ultimately show ?thesis
    using nul_not_file_error
    by (simp add: record_failure_def decide_def in_progress_def new_task_def failed_task_def
        failed_document_def sample_nul_document_def sample_document_def update_first_append_new)
qed

section \<open>Runs for a document id without a row\<close>

lemma attempt_missing:
  assumes "find (\<lambda>x. doc_id x = i) (documents d) = None"
  shows "\<exists>d'. extract_pdf_text_task e req i d = (d', decide req (missing_document_error e req i d))
           \<and> find (\<lambda>x. doc_id x = i) (documents d') = None"
  using assms
  by (auto simp: task_eq try_body_def Let_def commit_insert_def db_add_def SessionLocal_def commit_def
      query_document_def missing_document_error_def record_failure_document
      split: option.splits)

lemma missing_document_error_transient:
  assumes "list_all (\<lambda>err. \<not> is_file_error (str_exc err)) (early_errors e req i)"
  shows "\<not> is_file_error (str_exc (missing_document_error e req i d))"
  using assms missing_document_not_file_error [of i]
  by (auto simp: missing_document_error_def insert_error_def early_errors_def split: option.splits if_splits)

lemma run_missing_transient:
  assumes "find (\<lambda>x. doc_id x = i) (documents d) = None"
    and "\<And>k. k \<le> 3 \<Longrightarrow> list_all (\<lambda>err. \<not> is_file_error (str_exc err)) (early_errors e (req\<lparr>retries := k\<rparr>) i)"
    and "retries req \<le> 3"
  shows "list_all transient_failure (snd (run_task e req i d))"
  using assms
proof (induction e req i d rule: run_task.induct)
  case (1 e req i d)
  let ?err = "missing_document_error e req i d"
  let ?req = "req\<lparr>retries := retries req + 1\<rparr>"
  from attempt_missing [OF "1.prems"(1), of e req] obtain d'
    where step: "extract_pdf_text_task e req i d = (d', decide req ?err)"
      and none: "find (\<lambda>x. doc_id x = i) (documents d') = None"
    by blast
  have "list_all (\<lambda>err. \<not> is_file_error (str_exc err)) (early_errors e (req\<lparr>retries := retries req\<rparr>) i)"
    using "1.prems"(3) by (rule "1.prems"(2))
  then have nf: "\<not> is_file_error (str_exc ?err)"
    using missing_document_error_transient [of e req i d] by simp
  show ?case
  proof (cases "retries req < 3")
    case True
    with nf have out: "decide req ?err = Retry ?err (60 * (retries req + 1))"
      by (simp add: decide_def)
    have early: "\<And>k. k \<le> 3 \<Longrightarrow>
        list_all (\<lambda>err. \<not> is_file_error (str_exc err)) (early_errors e (?req\<lparr>retries := k\<rparr>) i)"
      using "1.prems"(2) by simp
    have "list_all transient_failure (snd (run_task e ?req i d'))"
      using "1.IH" [of d' "decide req ?err" ?err "60 * (retries req + 1)"] step out none early True
      by simp
    with nf show ?thesis
      using step out by (simp add: run_task_Retry)
  next
    case False
    with nf have "decide req ?err = Raised ?err"
      by (simp add: decide_def)
    with step nf show ?thesis
      by (simp add: run_task_Raised)
  qed
qed

section \<open>The extraction strategy selector\<close>

text \<open>
  Claim C5.  On a path that exists the selector runs the primary extractor first.  Let the
  primary text be whitespace, then a part that neither begins nor ends with whitespace,
  then whitespace again; the middle part is what trimming leaves.  When the middle part is
  longer than 100 code points, the selector returns the primary text with method
  \<open>pymupdf\<close>, and the log holds no entry of the secondary extractor: it was not run.
  Otherwise the secondary extractor runs (its entry is in the log), and the result is the
  secondary text with method \<open>pdfplumber\<close> when that text is strictly longer than the
  whole primary text, and the primary text with method \<open>pymupdf\<close> when it is not, equal
  lengths included.
\<close>

theorem C5_selector_strategy:
  assumes "path_exists e p"
    and "extract_with_pymupdf e p = ((text_a, pages_a), log_a)"
    and "extract_with_pdfplumber e p = ((text_b, pages_b), log_b)"
    and "text_a = lead @ core @ trail"
    and "list_all isspace lead" and "list_all isspace trail"
    and "core = [] \<or> (\<not> isspace (hd core) \<and> \<not> isspace (last core))"
  shows "extract_text_from_pdf e p =
      (if 100 < length core
       then (Inr \<lparr>res_text = text_a, res_text_length = length text_a,
                  res_page_count = pages_a, res_method = ''pymupdf''\<rparr>, log_a)
       else if length text_a < length text_b
       then (Inr \<lparr>res_text = text_b, res_text_length = length text_b,
                  res_page_count = pages_b, res_method = ''pdfplumber''\<rparr>, log_a @ log_b)
       else (Inr \<lparr>res_text = text_a, res_text_length = length text_a,
                  res_page_count = pages_a, res_method = ''pymupdf''\<rparr>, log_a @ log_b))
     \<and> \<not> pdfplumber_ran log_a \<and> pdfplumber_ran log_b"
proof -
  have trimmed: "strip text_a = core"
    using assms(5,6,7) unfolding assms(4) by (rule strip_core)
  have "\<not> pdfplumber_ran log_a"
    using assms(2) by (rule pymupdf_log)
  moreover have "pdfplumber_ran log_b"
    using assms(3) by (rule pdfplumber_log)
  moreover have "extract_text_from_pdf e p =
      (if 100 < length core
       then (Inr \<lparr>res_text = text_a, res_text_length = length text_a,
                  res_page_count = pages_a, res_method = ''pymupdf''\<rparr>, log_a)
       else if length text_a < length text_b
       then (Inr \<lparr>res_text = text_b, res_text_length = length text_b,
                  res_page_count = pages_b, res_method = ''pdfplumber''\<rparr>, log_a @ log_b)
       else (Inr \<lparr>res_text = text_a, res_text_length = length text_a,
                  res_page_count = pages_a, res_method = ''pymupdf''\<rparr>, log_a @ log_b))"
    using assms(1,2,3) trimmed by (simp add: extract_text_from_pdf_def)
  ultimately show ?thesis by simp
qed

text \<open>
  A file whose primary text has 101 code points, of which trimming leaves 13: a newline,
  the 13 code points of the page header, a newline and 86 blanks.  The threshold is taken
  on the 13, so the secondary extractor runs; its text has 102 code points and wins.
\<close>

theorem C5_selector_strategy_witness:
  "path_exists blank_env [47, 97]
   \<and> extract_with_pymupdf blank_env [47, 97] =
       (([10] @ [45, 45, 45, 32, 31532, 32, 49, 32, 39029, 32, 45, 45, 45] @ (10 # replicate 86 32), 1),
        [PyMuPDF_done 101 1])
   \<and> extract_text_from_pdf blank_env [47, 97] =
       (Inr \<lparr>res_text = [10, 45, 45, 45, 32, 31532, 32, 49, 32, 39029, 32, 45, 45, 45, 10] @ replicate 87 120,
              res_text_length = 102, res_page_count = 1, res_method = ''pdfplumber''\<rparr>,
        [PyMuPDF_done 101 1, Pdfplumber_done 102 1])"
proof -
  let ?core = "[45, 45, 45, 32, 31532, 32, 49, 32, 39029, 32, 45, 45, 45]"
  let ?a = "[10] @ ?core @ (10 # replicate 86 32)"
  let ?b = "[10, 45, 45, 45, 32, 31532, 32, 49, 32, 39029, 32, 45, 45, 45, 10] @ replicate 87 120"
  have a: "path_exists blank_env [47, 97]"
    by (simp add: blank_env_def sample_env_def)
  have b: "extract_with_pymupdf blank_env [47, 97] = ((?a, 1), [PyMuPDF_done 101 1])"
    by (simp add: blank_env_def sample_env_def extract_with_pymupdf_def page_header_def str_nat.simps)
  have c: "extract_with_pdfplumber blank_env [47, 97] = ((?b, 1), [Pdfplumber_done 102 1])"
    by (simp add: blank_env_def sample_env_def extract_with_pdfplumber_def page_header_def str_nat.simps)
  have lead: "list_all isspace [10]" and trail: "list_all isspace (10 # replicate 86 32)"
    by (simp_all add: isspace_def list_all_iff)
  have ends: "?core = [] \<or> (\<not> isspace (hd ?core) \<and> \<not> isspace (last ?core))"
    by (simp add: isspace_def)
  from C5_selector_strategy [OF a b c refl lead trail ends] a b show ?thesis
    by simp
qed

text \<open>
  Claim C7.  The selector returns a result exactly when the path exists, and raises exactly
  when it does not; the error is then the \<open>FileNotFoundError\<close> for that path.  An
  error inside either extractor never leaves it: the extractor then yields the empty text
  and 0 pages.
\<close>

theorem C7_selector_total:
  "((\<exists>r. fst (extract_text_from_pdf e p) = Inr r) \<longleftrightarrow> path_exists e p)
   \<and> (fst (extract_text_from_pdf e p) = Inl x
        \<longleftrightarrow> \<not> path_exists e p \<and> x = FileNotFoundError (file_missing_message p))
   \<and> fst (extract_with_pymupdf e p) =
       (case fitz_pages e p of None \<Rightarrow> ([], 0) | Some pages \<Rightarrow> (pymupdf_loop 0 pages [], length pages))
   \<and> fst (extract_with_pdfplumber e p) =
       (case plumber_pages e p of None \<Rightarrow> ([], 0) | Some pages \<Rightarrow> (pdfplumber_loop 0 pages [], length pages))"
  by (auto simp: extract_text_from_pdf_def extract_with_pymupdf_def extract_with_pdfplumber_def Let_def
           split: prod.splits option.splits)

section \<open>Failures and retries\<close>

text \<open>
  Claim C1, as the code has it.  The claim says that a transient failure with fewer than 3
  retries leaves the Document in \<open>processing\<close> or \<open>pending\<close> and the Job not in
  \<open>failure\<close>.  The code records the failure before it asks for the retry.  Whenever the
  \<open>try\<close> block of a run with fewer than 3 retries raises an error that is not a file
  error, the run ends in the retry signal for that error, with a countdown of 60 times the
  retry count plus one.  If the handler's write to the document goes through, the document,
  when it has a row, is then \<open>failed\<close> with the error's message; if not, the row is as the
  \<open>try\<close> block left it.  If the handler's write to the task row goes through as well, the
  row with the request's id is in \<open>failure\<close> with the error's message: that is the row
  stored before the run when there is one, and the row that this run inserted otherwise;
  when the insert itself was refused and no row was stored before, there is none.
\<close>

theorem C1_requeue_records_failure:
  assumes "try_body e req i (SessionLocal d) = (s, Inl err)"
    and "\<not> is_file_error (str_exc err)"
    and "retries req < 3"
  shows "snd (extract_pdf_text_task e req i d) = Retry err (60 * (retries req + 1))
     \<and> find (\<lambda>x. doc_id x = i) (documents (fst (extract_pdf_text_task e req i d))) =
         (if document_write e req i err
          then map_option (failed_document err) (find (\<lambda>x. doc_id x = i) (documents d))
          else find (\<lambda>x. doc_id x = i) (documents (committed s)))
     \<and> find (\<lambda>t. task_id t = req_id req) (processing_tasks (fst (extract_pdf_text_task e req i d))) =
         (if task_write e req i err
          then (case find (\<lambda>t. task_id t = req_id req) (processing_tasks d) of
                  Some t \<Rightarrow> Some (failed_task err t)
                | None \<Rightarrow>
                    if insert_error e req i (processing_tasks d) = None
                    then Some (failed_task err (new_task req i d))
                    else None)
          else find (\<lambda>t. task_id t = req_id req) (processing_tasks (committed s)))"
proof -
  have run: "extract_pdf_text_task e req i d = (record_failure e req i err (committed s), decide req err)"
    using assms(1) by (simp add: task_eq)
  have out: "decide req err = Retry err (60 * (retries req + 1))"
    using assms(2,3) by (simp add: decide_def)
  from try_body_fails [OF assms(1)]
  have "committed s = d \<or> committed s = started req i d \<or> committed s = in_progress req i d"
    by auto
  then have docs: "map_option (failed_document err) (find (\<lambda>x. doc_id x = i) (documents (committed s)))
      = map_option (failed_document err) (find (\<lambda>x. doc_id x = i) (documents d))"
    by (cases "find (\<lambda>x. doc_id x = i) (documents d)")
       (auto simp: started_def find_in_progress failed_document_def)
  have none: "find (\<lambda>t. task_id t = req_id req) (processing_tasks d) = None"
    if "insert_error e req i (processing_tasks d) = None"
    using that stored_id_rejected [of req d _ e i]
    by (cases "find (\<lambda>t. task_id t = req_id req) (processing_tasks d)") auto
  have new: "find (\<lambda>t. task_id t = req_id req) (processing_tasks d @ [new_task req i d]) = Some (new_task req i d)"
    if "insert_error e req i (processing_tasks d) = None"
    using none [OF that] by (simp add: find_append_new new_task_def)
  from try_body_fails [OF assms(1)]
  have tasks: "map_option (failed_task err) (find (\<lambda>t. task_id t = req_id req) (processing_tasks (committed s)))
      = (case find (\<lambda>t. task_id t = req_id req) (processing_tasks d) of
           Some t \<Rightarrow> Some (failed_task err t)
         | None \<Rightarrow>
             if insert_error e req i (processing_tasks d) = None
             then Some (failed_task err (new_task req i d))
             else None)"
    using none new by (auto simp: started_def in_progress_def split: option.splits)
  show ?thesis
    using docs tasks by (simp add: run out record_failure_document record_failure_task)
qed

text \<open>
  Document 7, pending, is submitted as message t2 in the environment whose text holds
  U+0000.  The commit of the result raises, the document is \<open>failed\<close>, the Job of t2 is
  in \<open>failure\<close>, and the run asks for a retry in 60 seconds.
\<close>

theorem C1_requeue_records_failure_witness:
  "extract_pdf_text_task nul_env \<lparr>req_id = ''t2'', retries = 0\<rparr> 7
       \<lparr>documents = [sample_document], processing_tasks = [sample_file_failed_task]\<rparr> =
     (\<lparr>documents = [sample_nul_document], processing_tasks = [sample_file_failed_task, sample_nul_task2]\<rparr>,
      Retry (ValueError [78, 85, 76]) 60)
   \<and> \<not> is_file_error [78, 85, 76]
   \<and> find (\<lambda>x. doc_id x = 7) [sample_nul_document] = Some sample_nul_document
   \<and> extraction_status sample_nul_document = ''failed''
   \<and> find (\<lambda>t. task_id t = ''t2'') [sample_file_failed_task, sample_nul_task2] = Some sample_nul_task2
   \<and> status sample_nul_task2 = ''failure''"
proof -
  let ?req = "\<lparr>req_id = ''t2'', retries = 0\<rparr>"
  let ?d = "\<lparr>documents = [sample_document], processing_tasks = [sample_file_failed_task]\<rparr>"
  have run: "extract_pdf_text_task nul_env ?req 7 ?d =
     (\<lparr>documents = [sample_nul_document], processing_tasks = [sample_file_failed_task, sample_nul_task2]\<rparr>,
      Retry (ValueError [78, 85, 76]) 60)"
    using nul_run [of "''t2''" "[sample_file_failed_task]" 0]
    by (simp add: sample_file_failed_task_def sample_nul_task2_def next_pk_def)
  obtain s r where body: "try_body nul_env ?req 7 (SessionLocal ?d) = (s, r)"
    by (cases "try_body nul_env ?req 7 (SessionLocal ?d)")
  with run have "r = Inl (ValueError [78, 85, 76])"
    using decide_error [of ?req _ "ValueError [78, 85, 76]" 60]
    by (cases r) (auto simp: task_eq)
  with body have raised: "try_body nul_env ?req 7 (SessionLocal ?d) = (s, Inl (ValueError [78, 85, 76]))"
    by simp
  have nf: "\<not> is_file_error (str_exc (ValueError [78, 85, 76]))"
    using nul_not_file_error by simp
  from C1_requeue_records_failure [OF raised nf] run nul_not_file_error show ?thesis
    by (simp add: sample_nul_document_def sample_document_def sample_file_failed_task_def sample_nul_task2_def)
qed

text \<open>
  The claim as stated fails on the first run of message t1 for document 7 in the same
  environment: the run asks for a retry in 60 seconds, and leaves the Document \<open>failed\<close>
  and the Job in \<open>failure\<close>.
\<close>

theorem C1_requeue_counterexample:
  "extract_pdf_text_task nul_env \<lparr>req_id = ''t1'', retries = 0\<rparr> 7
       \<lparr>documents = [sample_document], processing_tasks = []\<rparr> =
     (\<lparr>documents = [sample_nul_document], processing_tasks = [sample_nul_task]\<rparr>,
      Retry (ValueError [78, 85, 76]) 60)
   \<and> extraction_status sample_nul_document = ''failed''
   \<and> status sample_nul_task = ''failure''"
  using nul_run [of "''t1''" "[]" 0]
  by (simp add: sample_nul_task_def sample_nul_document_def next_pk_def)

text \<open>
  Claim C3 says that every retry inserts a Job record of its own and that the insert
  succeeds.  The queue sends a retry under the same task id, and \<open>task_id\<close> is unique: on
  the sample message for a document id without a row, runs 2, 3 and 4 end in the driver's
  \<open>IntegrityError\<close>, and after the four runs the table holds the one row of the first
  run, rewritten by the later runs.
\<close>

theorem C3_retry_reuses_job_record:
  "run_task sample_env \<lparr>req_id = ''t1'', retries = 0\<rparr> 7 \<lparr>documents = [], processing_tasks = []\<rparr> =
     (\<lparr>documents = [],
       processing_tasks = [sample_rejected_task]\<rparr>,
      [Retry (Exception [25991, 26723, 32, 55, 32, 19981, 23384, 22312]) 60,
       Retry (IntegrityError [100, 117, 112, 108, 105, 99, 97, 116, 101]) 120,
       Retry (IntegrityError [100, 117, 112, 108, 105, 99, 97, 116, 101]) 180,
       Raised (IntegrityError [100, 117, 112, 108, 105, 99, 97, 116, 101])])"
proof -
  have "run_task sample_env \<lparr>req_id = ''t1'', retries = Suc 0\<rparr> 7
          \<lparr>documents = [], processing_tasks = [sample_failed_task]\<rparr> =
     (\<lparr>documents = [], processing_tasks = [sample_rejected_task]\<rparr>,
      [Retry (IntegrityError [100, 117, 112, 108, 105, 99, 97, 116, 101]) 120,
       Retry (IntegrityError [100, 117, 112, 108, 105, 99, 97, 116, 101]) 180,
       Raised (IntegrityError [100, 117, 112, 108, 105, 99, 97, 116, 101])])"
    using sample_rejected_runs [of sample_env "''t1''" "[sample_failed_task]" "Suc 0" "[]"]
    by (simp add: sample_failed_task_def sample_rejected_task_def failed_task_def upt_to_3)
  then show ?thesis
    by (simp add: run_task_Retry [OF sample_missing_run])
qed

text \<open>
  Claim C4, as the code has it.  The claim says that the document is marked \<open>failed\<close>
  only after the four attempts.  When every run of a message that starts with retry count 0
  ends in an error that is not a file error, the message is run exactly 4 times, with
  retry counts 0 to 3; the countdowns between the runs are 60, 120 and 180 seconds, and the
  last run raises its error.  But the document is marked after every one of the four runs,
  the first included: when it has a row and the handler's write goes through, the row is
  \<open>failed\<close> with the message of that run's error.
\<close>

theorem C4_retry_cap:
  assumes "retries req = 0" and "list_all transient_failure (snd (run_task e req i d))"
  shows "length (run_trace e req i d) = 4
     \<and> map (\<lambda>(rq, d', out). out) (run_trace e req i d) = snd (run_task e req i d)
     \<and> map (\<lambda>(rq, d', out). retries rq) (run_trace e req i d) = [0, 1, 2, 3]
     \<and> countdowns (snd (run_task e req i d)) = [60, 120, 180]
     \<and> (\<exists>err. last (snd (run_task e req i d)) = Raised err)
     \<and> list_all (marks_document e i d) (run_trace e req i d)"
proof -
  have outs: "map (\<lambda>(rq, d', out). out) (run_trace e req i d) = snd (run_task e req i d)"
    by (rule run_trace_outcomes)
  from run_task_transient [OF assms(2)] assms(1)
  have cd: "countdowns (snd (run_task e req i d)) = map (\<lambda>k. 60 * (k + 1)) [0..<3]"
    and len: "length (snd (run_task e req i d)) = 4"
    and last: "\<exists>err. last (snd (run_task e req i d)) = Raised err"
    by simp_all
  from len have len': "length (run_trace e req i d) = 4"
    using outs [symmetric] by simp
  have "[0..<4] = [0, 1, 2, 3]"
    by (simp add: upt_conv_Cons)
  then have rs: "map (\<lambda>(rq, d', out). retries rq) (run_trace e req i d) = [0, 1, 2, 3]"
    using run_trace_retries [of e req i d] assms(1) len' by simp
  have marks: "list_all (marks_document e i d) (run_trace e req i d)"
    using assms(2) by (rule run_trace_marks) simp
  from cd have "countdowns (snd (run_task e req i d)) = [60, 120, 180]"
    by (simp add: upt_to_3)
  with len' outs rs last marks show ?thesis
    by simp
qed

text \<open>
  Message t1 for document 7, pending, in the environment whose text holds U+0000: the
  first run fails at the commit of the result, the three retries at the insert of the Job
  record.  After each of the four runs the document is \<open>failed\<close>.
\<close>

theorem C4_retry_cap_witness:
  "run_trace nul_env \<lparr>req_id = ''t1'', retries = 0\<rparr> 7 \<lparr>documents = [sample_document], processing_tasks = []\<rparr> =
     [(\<lparr>req_id = ''t1'', retries = 0\<rparr>,
       \<lparr>documents = [sample_nul_document], processing_tasks = [sample_nul_task]\<rparr>,
       Retry (ValueError [78, 85, 76]) 60),
      (\<lparr>req_id = ''t1'', retries = 1\<rparr>,
       \<lparr>documents = [sample_rejected_document], processing_tasks = [sample_rejected_task]\<rparr>,
       Retry (IntegrityError [100, 117, 112, 108, 105, 99, 97, 116, 101]) 120),
      (\<lparr>req_id = ''t1'', retries = 2\<rparr>,
       \<lparr>documents = [sample_rejected_document], processing_tasks = [sample_rejected_task]\<rparr>,
       Retry (IntegrityError [100, 117, 112, 108, 105, 99, 97, 116, 101]) 180),
      (\<lparr>req_id = ''t1'', retries = 3\<rparr>,
       \<lparr>documents = [sample_rejected_document], processing_tasks = [sample_rejected_task]\<rparr>,
       Raised (IntegrityError [100, 117, 112, 108, 105, 99, 97, 116, 101]))]
   \<and> list_all transient_failure
       (snd (run_task nul_env \<lparr>req_id = ''t1'', retries = 0\<rparr> 7 \<lparr>documents = [sample_document], processing_tasks = []\<rparr>))
   \<and> countdowns
       (snd (run_task nul_env \<lparr>req_id = ''t1'', retries = 0\<rparr> 7 \<lparr>documents = [sample_document], processing_tasks = []\<rparr>))
       = [60, 120, 180]
   \<and> extraction_status sample_nul_document = ''failed''
   \<and> extraction_status sample_rejected_document = ''failed''"
proof -
  let ?req = "\<lparr>req_id = ''t1'', retries = 0\<rparr>"
  let ?d = "\<lparr>documents = [sample_document], processing_tasks = []\<rparr>"
  let ?d1 = "\<lparr>documents = [sample_nul_document], processing_tasks = [sample_nul_task]\<rparr>"
  let ?dup = "IntegrityError [100, 117, 112, 108, 105, 99, 97, 116, 101]"
  have step: "extract_pdf_text_task nul_env ?req 7 ?d = (?d1, Retry (ValueError [78, 85, 76]) 60)"
    using nul_run [of "''t1''" "[]" 0] by (simp add: sample_nul_task_def next_pk_def)
  have "[Suc 0..<4] = [1, 2, 3]"
    by (simp add: upt_conv_Cons)
  then have rest: "run_trace nul_env \<lparr>req_id = ''t1'', retries = Suc 0\<rparr> 7 ?d1 =
     [(\<lparr>req_id = ''t1'', retries = 1\<rparr>,
       \<lparr>documents = [sample_rejected_document], processing_tasks = [sample_rejected_task]\<rparr>, Retry ?dup 120),
      (\<lparr>req_id = ''t1'', retries = 2\<rparr>,
       \<lparr>documents = [sample_rejected_document], processing_tasks = [sample_rejected_task]\<rparr>, Retry ?dup 180),
      (\<lparr>req_id = ''t1'', retries = 3\<rparr>,
       \<lparr>documents = [sample_rejected_document], processing_tasks = [sample_rejected_task]\<rparr>, Raised ?dup)]"
    using sample_rejected_trace [of nul_env "''t1''" "[sample_nul_task]" "Suc 0" "[sample_nul_document]"]
    by (simp add: sample_nul_task_def sample_nul_document_def sample_rejected_task_def
        sample_rejected_document_def sample_document_def failed_task_def failed_document_def)
  have trace: "run_trace nul_env ?req 7 ?d =
     [(?req, ?d1, Retry (ValueError [78, 85, 76]) 60),
      (\<lparr>req_id = ''t1'', retries = 1\<rparr>,
       \<lparr>documents = [sample_rejected_document], processing_tasks = [sample_rejected_task]\<rparr>, Retry ?dup 120),
      (\<lparr>req_id = ''t1'', retries = 2\<rparr>,
       \<lparr>documents = [sample_rejected_document], processing_tasks = [sample_rejected_task]\<rparr>, Retry ?dup 180),
      (\<lparr>req_id = ''t1'', retries = 3\<rparr>,
       \<lparr>documents = [sample_rejected_document], processing_tasks = [sample_rejected_task]\<rparr>, Raised ?dup)]"
    using rest by (simp add: run_trace_Retry [OF step])
  have outs: "snd (run_task nul_env ?req 7 ?d) =
      [Retry (ValueError [78, 85, 76]) 60, Retry ?dup 120, Retry ?dup 180, Raised ?dup]"
    using run_trace_outcomes [of nul_env ?req 7 ?d] by (simp add: trace)
  have h: "list_all transient_failure (snd (run_task nul_env ?req 7 ?d))"
    using nul_not_file_error duplicate_not_file_error by (simp add: outs)
  from C4_retry_cap [OF _ h] trace h show ?thesis
    by (simp add: sample_nul_document_def sample_rejected_document_def)
qed

text \<open>
  The claim as stated fails on message t2 for document 7 in the same environment: the
  message has four runs, and the first of them already leaves the document \<open>failed\<close>.
\<close>

theorem C4_retry_cap_counterexample:
  "fst (extract_pdf_text_task nul_env \<lparr>req_id = ''t2'', retries = 0\<rparr> 7
       \<lparr>documents = [sample_document], processing_tasks = [sample_file_failed_task]\<rparr>) =
     \<lparr>documents = [sample_nul_document], processing_tasks = [sample_file_failed_task, sample_nul_task2]\<rparr>
   \<and> extraction_status sample_nul_document = ''failed''
   \<and> snd (run_task nul_env \<lparr>req_id = ''t2'', retries = 0\<rparr> 7
       \<lparr>documents = [sample_document], processing_tasks = [sample_file_failed_task]\<rparr>) =
       [Retry (ValueError [78, 85, 76]) 60,
        Retry (IntegrityError [100, 117, 112, 108, 105, 99, 97, 116, 101]) 120,
        Retry (IntegrityError [100, 117, 112, 108, 105, 99, 97, 116, 101]) 180,
        Raised (IntegrityError [100, 117, 112, 108, 105, 99, 97, 116, 101])]"
proof -
  let ?req = "\<lparr>req_id = ''t2'', retries = 0\<rparr>"
  let ?d = "\<lparr>documents = [sample_document], processing_tasks = [sample_file_failed_task]\<rparr>"
  let ?d1 = "\<lparr>documents = [sample_nul_document], processing_tasks = [sample_file_failed_task, sample_nul_task2]\<rparr>"
  have step: "extract_pdf_text_task nul_env ?req 7 ?d = (?d1, Retry (ValueError [78, 85, 76]) 60)"
    using nul_run [of "''t2''" "[sample_file_failed_task]" 0]
    by (simp add: sample_file_failed_task_def sample_nul_task2_def next_pk_def)
  have "snd (run_task nul_env \<lparr>req_id = ''t2'', retries = Suc 0\<rparr> 7 ?d1) =
      [Retry (IntegrityError [100, 117, 112, 108, 105, 99, 97, 116, 101]) 120,
       Retry (IntegrityError [100, 117, 112, 108, 105, 99, 97, 116, 101]) 180,
       Raised (IntegrityError [100, 117, 112, 108, 105, 99, 97, 116, 101])]"
    using sample_rejected_runs [of nul_env "''t2''" "[sample_file_failed_task, sample_nul_task2]" "Suc 0"
        "[sample_nul_document]"]
    by (simp add: sample_file_failed_task_def sample_nul_task2_def upt_to_3)
  then show ?thesis
    by (simp add: run_task_Retry [OF step] step sample_nul_document_def)
qed

text \<open>
  Claim C6 says that an extraction whose source file does not exist is attempted exactly
  once and never retried.  That holds for a message whose Job record can be inserted
  (lemma \<open>missing_file_first_delivery\<close> below).  It fails for a message whose task id is
  stored already, by the defect of claim C3: the insert of line 48 comes before the file
  check of line 67.  Message t1 was interrupted after its insert and is delivered again,
  for document 7 on a path that does not exist: the message is run four times and retried
  three times, and no run reaches the file check.
\<close>

theorem C6_missing_file_is_retried:
  "\<not> path_exists sample_env [47, 98]
   \<and> run_task sample_env \<lparr>req_id = ''t1'', retries = 0\<rparr> 7
       \<lparr>documents = [sample_document\<lparr>file_path := [47, 98], extraction_status := ''processing''\<rparr>],
        processing_tasks = [sample_started_task]\<rparr> =
     (\<lparr>documents = [sample_rejected_document\<lparr>file_path := [47, 98]\<rparr>],
       processing_tasks = [sample_rejected_task]\<rparr>,
      [Retry (IntegrityError [100, 117, 112, 108, 105, 99, 97, 116, 101]) 60,
       Retry (IntegrityError [100, 117, 112, 108, 105, 99, 97, 116, 101]) 120,
       Retry (IntegrityError [100, 117, 112, 108, 105, 99, 97, 116, 101]) 180,
       Raised (IntegrityError [100, 117, 112, 108, 105, 99, 97, 116, 101])])"
  using sample_rejected_runs [of sample_env "''t1''" "[sample_started_task]" 0
      "[sample_document\<lparr>file_path := [47, 98], extraction_status := ''processing''\<rparr>]"]
  by (simp add: sample_started_task_def sample_rejected_task_def sample_rejected_document_def
      sample_document_def failed_task_def failed_document_def upt_to_3 sample_env_def)

text \<open>
  Where the insert of the Job record succeeds and no step fails, a document whose path
  does not exist gets one run, which raises the \<open>FileNotFoundError\<close>, and the document is
  \<open>failed\<close> with its message when the handler's write goes through.
\<close>

lemma missing_file_first_delivery:
  assumes "insert_error e req i (processing_tasks d) = None"
    and "\<And>st. fault e req i st = None"
    and "find (\<lambda>x. doc_id x = i) (documents d) = Some doc"
    and "\<not> path_exists e (file_path doc)"
  shows "snd (run_task e req i d) = [Raised (FileNotFoundError (file_missing_message (file_path doc)))]
     \<and> (storable (file_missing_message (file_path doc)) \<longrightarrow>
          map_option extraction_status (find (\<lambda>x. doc_id x = i) (documents (fst (run_task e req i d))))
            = Some ''failed'')"
proof -
  let ?err = "FileNotFoundError (file_missing_message (file_path doc))"
  have step: "extract_pdf_text_task e req i d = (record_failure e req i ?err (in_progress req i d), Raised ?err)"
    using attempt_raises [OF assms(1,2,3) selector_raises [OF assms(4)]] file_missing_is_file_error
    by (simp add: decide_def)
  have "find (\<lambda>x. doc_id x = i) (documents (in_progress req i d))
          = Some (doc\<lparr>extraction_status := ''processing''\<rparr>)"
    using assms(3) by (simp add: find_in_progress)
  then show ?thesis
    using assms(2)
    by (simp add: run_task_Raised [OF step] record_failure_document document_write_def failed_document_def)
qed

text \<open>
  Claim C10.  The message for a document id without a row holds neither pattern, whatever
  the id.  Take a message with retry count 0 for a document id without a row, and let the
  errors that the driver and the environment hold ready for the steps before the document
  is looked up hold neither pattern.  Then the first run asks for a retry in 60 seconds;
  its error is the worker's exception for the missing document when the Job record could
  be inserted, and the error of the insert otherwise (as for an id outside the 32-bit
  integers).  The message goes through 4 runs with countdowns 60, 120 and 180, each ending
  in an error that is not a file error, and the last run raises.
\<close>

theorem C10_missing_document_is_retried:
  assumes "retries req = 0"
    and "find (\<lambda>x. doc_id x = i) (documents d) = None"
    and "early_errors_transient e req i"
  shows "\<not> is_file_error (missing_document_message j)
     \<and> snd (extract_pdf_text_task e req i d) = Retry (missing_document_error e req i d) 60
     \<and> length (snd (run_task e req i d)) = 4
     \<and> countdowns (snd (run_task e req i d)) = [60, 120, 180]
     \<and> list_all transient_failure (snd (run_task e req i d))
     \<and> (\<exists>err. last (snd (run_task e req i d)) = Raised err)"
proof -
  have early: "\<And>k. k \<le> 3 \<Longrightarrow> list_all (\<lambda>err. \<not> is_file_error (str_exc err)) (early_errors e (req\<lparr>retries := k\<rparr>) i)"
  proof -
    fix k :: nat
    assume "k \<le> 3"
    then have "k = 0 \<or> k = 1 \<or> k = 2 \<or> k = 3"
      by auto
    with assms(3) show "list_all (\<lambda>err. \<not> is_file_error (str_exc err)) (early_errors e (req\<lparr>retries := k\<rparr>) i)"
      by (auto simp: early_errors_transient_def)
  qed
  have "req\<lparr>retries := 0\<rparr> = req"
    using assms(1) by simp
  with early [of 0] have "list_all (\<lambda>err. \<not> is_file_error (str_exc err)) (early_errors e req i)"
    by simp
  then have nf: "\<not> is_file_error (str_exc (missing_document_error e req i d))"
    using missing_document_error_transient by blast
  have first: "snd (extract_pdf_text_task e req i d) = Retry (missing_document_error e req i d) 60"
    using attempt_missing [OF assms(2), of e req] nf assms(1) by (auto simp: decide_def)
  have all: "list_all transient_failure (snd (run_task e req i d))"
  proof (rule run_missing_transient)
    show "find (\<lambda>x. doc_id x = i) (documents d) = None"
      by (rule assms(2))
    show "\<And>k. k \<le> 3 \<Longrightarrow>
        list_all (\<lambda>err. \<not> is_file_error (str_exc err)) (early_errors e (req\<lparr>retries := k\<rparr>) i)"
      by (rule early)
    show "retries req \<le> 3"
      using assms(1) by simp
  qed
  from run_task_transient [OF all] assms(1)
  have "countdowns (snd (run_task e req i d)) = map (\<lambda>k. 60 * (k + 1)) [0..<3]"
    and "length (snd (run_task e req i d)) = 4"
    and "\<exists>err. last (snd (run_task e req i d)) = Raised err"
    by simp_all
  with first all missing_document_not_file_error [of j] show ?thesis
    by (simp add: upt_to_3)
qed

text \<open>
  The sample message on the empty tables, for document id 7 and for the id 2147483648.  For
  id 7 the first run raises the worker's exception and the retries are refused at the
  insert; for 2147483648, which does not fit the column \<open>document_id\<close>, every run is
  refused at the insert.  Either way there are 4 runs.
\<close>

theorem C10_missing_document_is_retried_witness:
  "early_errors_transient sample_env \<lparr>req_id = ''t1'', retries = 0\<rparr> 7
   \<and> snd (extract_pdf_text_task sample_env \<lparr>req_id = ''t1'', retries = 0\<rparr> 7 \<lparr>documents = [], processing_tasks = []\<rparr>)
       = Retry (Exception [25991, 26723, 32, 55, 32, 19981, 23384, 22312]) 60
   \<and> countdowns (snd (run_task sample_env \<lparr>req_id = ''t1'', retries = 0\<rparr> 7 \<lparr>documents = [], processing_tasks = []\<rparr>))
       = [60, 120, 180]
   \<and> length (snd (run_task sample_env \<lparr>req_id = ''t1'', retries = 0\<rparr> 7 \<lparr>documents = [], processing_tasks = []\<rparr>)) = 4
   \<and> early_errors_transient sample_env \<lparr>req_id = ''t1'', retries = 0\<rparr> 2147483648
   \<and> snd (extract_pdf_text_task sample_env \<lparr>req_id = ''t1'', retries = 0\<rparr> 2147483648
            \<lparr>documents = [], processing_tasks = []\<rparr>)
       = Retry (DataError [114, 97, 110, 103, 101]) 60
   \<and> length (snd (run_task sample_env \<lparr>req_id = ''t1'', retries = 0\<rparr> 2147483648
            \<lparr>documents = [], processing_tasks = []\<rparr>)) = 4"
proof -
  let ?req = "\<lparr>req_id = ''t1'', retries = 0\<rparr>"
  let ?d = "\<lparr>documents = [], processing_tasks = []\<rparr>"
  have h: "early_errors_transient sample_env ?req i" for i
    using duplicate_not_file_error nul_not_file_error
    by (simp add: early_errors_transient_def early_errors_def sample_env_def is_file_error_def)
  have a: "missing_document_error sample_env ?req 7 ?d = Exception [25991, 26723, 32, 55, 32, 19981, 23384, 22312]"
    by (simp add: missing_document_error_def sample_insert_error sample_no_fault sample_missing_message)
  have b: "missing_document_error sample_env ?req 2147483648 ?d = DataError [114, 97, 110, 103, 101]"
    by (simp add: missing_document_error_def insert_error_def sample_env_def storable_id_def in_integer_def)
  from C10_missing_document_is_retried [of ?req 7 ?d sample_env 7]
    C10_missing_document_is_retried [of ?req 2147483648 ?d sample_env 7] h a b
  show ?thesis
    by simp
qed

section \<open>Document and Job records\<close>

text \<open>
  Claim C2 says that after a terminal outcome the Document and its latest Job agree.  The
  two are written together on success (one commit, line 86) and one after the other in the
  handler.  They come apart by the defect of claim C3.  Message t1 failed on a missing
  file; document 7 was submitted again as message t2, which left it \<open>completed\<close> with its
  Job in \<open>success\<close>.  When message t1 is delivered again, its four runs are refused at
  the insert, and the handler marks the document and the old row of t1; after the last run
  has raised, the document is \<open>failed\<close>, while its latest Job is still the one of t2, in
  \<open>success\<close>.
\<close>

theorem C2_rejected_run_splits_records:
  "latest_task 7 \<lparr>documents = [sample_completed_document],
                  processing_tasks = [sample_file_failed_task, sample_succeeded_task]\<rparr>
     = Some sample_succeeded_task
   \<and> run_task sample_env \<lparr>req_id = ''t1'', retries = 0\<rparr> 7
       \<lparr>documents = [sample_completed_document],
        processing_tasks = [sample_file_failed_task, sample_succeeded_task]\<rparr> =
     (\<lparr>documents = [sample_completed_document\<lparr>extraction_status := ''failed'',
                        extraction_error := Some [100, 117, 112, 108, 105, 99, 97, 116, 101]\<rparr>],
       processing_tasks = [sample_rejected_task, sample_succeeded_task]\<rparr>,
      [Retry (IntegrityError [100, 117, 112, 108, 105, 99, 97, 116, 101]) 60,
       Retry (IntegrityError [100, 117, 112, 108, 105, 99, 97, 116, 101]) 120,
       Retry (IntegrityError [100, 117, 112, 108, 105, 99, 97, 116, 101]) 180,
       Raised (IntegrityError [100, 117, 112, 108, 105, 99, 97, 116, 101])])
   \<and> latest_task 7 \<lparr>documents = [sample_completed_document\<lparr>extraction_status := ''failed'',
                        extraction_error := Some [100, 117, 112, 108, 105, 99, 97, 116, 101]\<rparr>],
                  processing_tasks = [sample_rejected_task, sample_succeeded_task]\<rparr>
     = Some sample_succeeded_task
   \<and> status sample_succeeded_task = ''success''"
  using sample_rejected_runs [of sample_env "''t1''" "[sample_file_failed_task, sample_succeeded_task]" 0
      "[sample_completed_document]"]
  by (simp add: sample_file_failed_task_def sample_rejected_task_def sample_succeeded_task_def
      sample_completed_document_def sample_document_def latest_task_def failed_task_def failed_document_def
      upt_to_3)

text \<open>
  Claim C8.  If the stored length of every completed document is the length of its stored
  text, the same holds after any run of the worker; and a run that returns leaves its
  document \<open>completed\<close> with a text whose length is the stored length and the returned
  length.
\<close>

theorem C8_text_length_is_length:
  assumes "list_all length_consistent (documents d)"
  shows "list_all length_consistent (documents (fst (extract_pdf_text_task e req i d)))
     \<and> (case snd (extract_pdf_text_task e req i d) of
           Returned ret \<Rightarrow>
             (\<exists>doc t. find (\<lambda>x. doc_id x = i) (documents (fst (extract_pdf_text_task e req i d))) = Some doc
                \<and> extraction_status doc = ''completed'' \<and> extracted_text doc = Some t
                \<and> text_length doc = length t \<and> ret_text_length ret = length t)
         | Retry err c \<Rightarrow> True
         | Raised err \<Rightarrow> True)"
proof -
  obtain s r where body: "try_body e req i (SessionLocal d) = (s, r)"
    by (cases "try_body e req i (SessionLocal d)")
  show ?thesis
  proof (cases r)
    case (Inl err)
    with body have raised: "try_body e req i (SessionLocal d) = (s, Inl err)"
      by simp
    from try_body_fails [OF raised]
    have "committed s = d \<or> committed s = started req i d \<or> committed s = in_progress req i d"
      by blast
    then have "list_all length_consistent (documents (committed s))"
      using assms in_progress_consistent [OF assms, of req i] by (auto simp: started_def)
    then have "list_all length_consistent (documents (record_failure e req i err (committed s)))"
      by (rule record_failure_consistent)
    then show ?thesis
      using raised decide_cases [of req err] by (auto simp: task_eq)
  next
    case (Inr ret)
    with body have returned: "try_body e req i (SessionLocal d) = (s, Inr ret)"
      by simp
    from try_body_returns [OF returned] obtain doc res
      where doc: "find (\<lambda>x. doc_id x = i) (documents d) = Some doc"
        and sel: "fst (extract_text_from_pdf e (file_path doc)) = Inr res"
        and ret: "ret = \<lparr>ret_document_id = i, ret_text_length = res_text_length res,
                         ret_page_count = res_page_count res, ret_status = ''success''\<rparr>"
        and db: "committed s =
               d\<lparr>documents := update_first (\<lambda>x. doc_id x = i) (completed_document res)
                                (documents (in_progress req i d)),
                 processing_tasks := processing_tasks d @ [succeeded_task res (new_task req i d)]\<rparr>"
      by blast
    have len: "res_text_length res = length (res_text res)"
      using sel by (rule selector_length)
    have "list_all length_consistent
            (update_first (\<lambda>x. doc_id x = i) (completed_document res) (documents (in_progress req i d)))"
      using in_progress_consistent [OF assms, of req i] len
      by (simp add: list_all_update_first length_consistent_completed)
    moreover have "find (\<lambda>x. doc_id x = i)
            (update_first (\<lambda>x. doc_id x = i) (completed_document res) (documents (in_progress req i d)))
          = Some (completed_document res (doc\<lparr>extraction_status := ''processing''\<rparr>))"
      using doc by (simp add: find_update_first find_in_progress completed_document_def)
    ultimately show ?thesis
      using returned ret db len by (simp add: task_eq completed_document_def)
  qed
qed

text \<open>A successful run on the pending sample document.\<close>

theorem C8_text_length_is_length_witness:
  "list_all length_consistent [sample_document]
   \<and> extract_pdf_text_task sample_env \<lparr>req_id = ''t2'', retries = 0\<rparr> 7
        \<lparr>documents = [sample_document], processing_tasks = [sample_file_failed_task]\<rparr>
      = (\<lparr>documents = [sample_completed_document],
          processing_tasks = [sample_file_failed_task, sample_succeeded_task]\<rparr>,
         Returned \<lparr>ret_document_id = 7, ret_text_length = 18, ret_page_count = 1, ret_status = ''success''\<rparr>)
   \<and> list_all length_consistent [sample_completed_document]"
proof -
  let ?req = "\<lparr>req_id = ''t2'', retries = 0\<rparr>"
  let ?d = "\<lparr>documents = [sample_document], processing_tasks = [sample_file_failed_task]\<rparr>"
  let ?res = "\<lparr>res_text = [10, 45, 45, 45, 32, 31532, 32, 49, 32, 39029, 32, 45, 45, 45, 10, 104, 105, 33],
          res_text_length = 18, res_page_count = 1, res_method = ''pdfplumber''\<rparr>"
  have h: "list_all length_consistent (documents ?d)"
    by (simp add: length_consistent_def sample_document_def)
  have ins: "insert_error sample_env ?req 7 (processing_tasks ?d) = None"
    by (simp add: sample_insert_error sample_file_failed_task_def)
  have doc: "find (\<lambda>x. doc_id x = 7) (documents ?d) = Some sample_document"
    by (simp add: sample_document_def)
  have sel: "fst (extract_text_from_pdf sample_env (file_path sample_document)) = Inr ?res"
    using sample_selector by (simp add: sample_document_def)
  have store: "result_error sample_env ?req 7 ?res = None"
    by (simp add: result_error_def storable_def sample_env_def)
  have run: "extract_pdf_text_task sample_env ?req 7 ?d
      = (\<lparr>documents = [sample_completed_document],
          processing_tasks = [sample_file_failed_task, sample_succeeded_task]\<rparr>,
         Returned \<lparr>ret_document_id = 7, ret_text_length = 18, ret_page_count = 1, ret_status = ''success''\<rparr>)"
    using attempt_returns [OF ins _ doc sel store]
    by (simp add: sample_no_fault sample_file_failed_task_def sample_succeeded_task_def
        sample_completed_document_def sample_document_def completed_document_def succeeded_task_def
        in_progress_def new_task_def next_pk_def)
  from C8_text_length_is_length [OF h, of sample_env ?req 7] h run
  show ?thesis
    by simp
qed

section \<open>Reading the extracted text\<close>

text \<open>
  Claim C9.  For a document that has a row, the endpoint answers with status 425 exactly
  when the extraction status is \<open>pending\<close> or \<open>processing\<close>, with status 500 and the
  extraction-failed detail that carries the stored error exactly when the status is
  \<open>failed\<close>, and with the text, its length and the page count exactly when the status is
  \<open>completed\<close>.
\<close>

theorem C9_read_extracted_text:
  assumes "find (\<lambda>x. doc_id x = i) (documents d) = Some doc"
  shows "((\<exists>detail. get_document_text i d = Inl (HTTPException 425 detail))
            \<longleftrightarrow> extraction_status doc = ''pending'' \<or> extraction_status doc = ''processing'')
     \<and> (get_document_text i d = Inl (HTTPException 500 (extraction_failed_detail (extraction_error doc)))
            \<longleftrightarrow> extraction_status doc = ''failed'')
     \<and> (get_document_text i d =
           Inr \<lparr>resp_document_id = i, resp_text = extracted_text doc,
                resp_text_length = text_length doc, resp_page_count = page_count doc\<rparr>
            \<longleftrightarrow> extraction_status doc = ''completed'')
     \<and> ((\<exists>r. get_document_text i d = Inr r) \<longleftrightarrow> extraction_status doc = ''completed'')"
  using assms by (auto simp: get_document_text_def extraction_failed_detail_def)

text \<open>The sample document in status \<open>failed\<close> with a one-character error.\<close>

theorem C9_read_extracted_text_witness:
  "get_document_text 7 \<lparr>documents = [sample_document\<lparr>extraction_status := ''failed'', extraction_error := Some [120]\<rparr>],
                        processing_tasks = []\<rparr>
     = Inl (HTTPException 500 [25991, 26412, 25552, 21462, 22833, 36133, 58, 32, 120])"
  using C9_read_extracted_text [of 7 "\<lparr>documents = [sample_document\<lparr>extraction_status := ''failed'', extraction_error := Some [120]\<rparr>],
                        processing_tasks = []\<rparr>" "sample_document\<lparr>extraction_status := ''failed'', extraction_error := Some [120]\<rparr>"]
  by (simp add: sample_document_def extraction_failed_detail_def str_opt_def)

end
